theory Spec2Isabelle
  imports Complex_Main
begin

section \<open>Numeric values\<close>

text \<open>
  The script computes with NumPy double-precision arrays. A value is a real number, an
  infinity or NaN. The operations of this section are exact: a finite result is the real
  number itself. What NumPy does where the reals have no answer is kept: a division by
  zero, the square root of a negative number and arithmetic on infinities give an infinity
  or NaN, and never raise. Signed zeros are not distinguished (a zero divisor counts as
  \<open>+0\<close>). The functions built on these operations are the script in exact arithmetic;
  a later section gives the error band with every result rounded to a double.
\<close>

datatype fval = Fin real | PInf | NInf | NaN

fun is_finite :: "fval \<Rightarrow> bool" where
  "is_finite (Fin r) = True"
| "is_finite PInf = False"
| "is_finite NInf = False"
| "is_finite NaN = False"

fun fneg :: "fval \<Rightarrow> fval" where
  "fneg (Fin a) = Fin (- a)"
| "fneg PInf = NInf"
| "fneg NInf = PInf"
| "fneg NaN = NaN"

fun fadd :: "fval \<Rightarrow> fval \<Rightarrow> fval" where
  "fadd (Fin a) (Fin b) = Fin (a + b)"
| "fadd (Fin a) PInf = PInf"
| "fadd (Fin a) NInf = NInf"
| "fadd (Fin a) NaN = NaN"
| "fadd PInf (Fin b) = PInf"
| "fadd PInf PInf = PInf"
| "fadd PInf NInf = NaN"
| "fadd PInf NaN = NaN"
| "fadd NInf (Fin b) = NInf"
| "fadd NInf PInf = NaN"
| "fadd NInf NInf = NInf"
| "fadd NInf NaN = NaN"
| "fadd NaN b = NaN"

definition fsub :: "fval \<Rightarrow> fval \<Rightarrow> fval" where
  "fsub a b = fadd a (fneg b)"

fun fmul :: "fval \<Rightarrow> fval \<Rightarrow> fval" where
  "fmul (Fin a) (Fin b) = Fin (a * b)"
| "fmul (Fin a) PInf = (if a = 0 then NaN else if 0 < a then PInf else NInf)"
| "fmul (Fin a) NInf = (if a = 0 then NaN else if 0 < a then NInf else PInf)"
| "fmul (Fin a) NaN = NaN"
| "fmul PInf (Fin b) = (if b = 0 then NaN else if 0 < b then PInf else NInf)"
| "fmul PInf PInf = PInf"
| "fmul PInf NInf = NInf"
| "fmul PInf NaN = NaN"
| "fmul NInf (Fin b) = (if b = 0 then NaN else if 0 < b then NInf else PInf)"
| "fmul NInf PInf = NInf"
| "fmul NInf NInf = PInf"
| "fmul NInf NaN = NaN"
| "fmul NaN b = NaN"

fun fdiv :: "fval \<Rightarrow> fval \<Rightarrow> fval" where
  "fdiv (Fin a) (Fin b) =
     (if b \<noteq> 0 then Fin (a / b)
      else if a = 0 then NaN else if 0 < a then PInf else NInf)"
| "fdiv (Fin a) PInf = Fin 0"
| "fdiv (Fin a) NInf = Fin 0"
| "fdiv (Fin a) NaN = NaN"
| "fdiv PInf (Fin b) = (if 0 \<le> b then PInf else NInf)"
| "fdiv PInf PInf = NaN"
| "fdiv PInf NInf = NaN"
| "fdiv PInf NaN = NaN"
| "fdiv NInf (Fin b) = (if 0 \<le> b then NInf else PInf)"
| "fdiv NInf PInf = NaN"
| "fdiv NInf NInf = NaN"
| "fdiv NInf NaN = NaN"
| "fdiv NaN b = NaN"

fun fsqrt :: "fval \<Rightarrow> fval" where
  "fsqrt (Fin a) = (if a < 0 then NaN else Fin (sqrt a))"
| "fsqrt PInf = PInf"
| "fsqrt NInf = NaN"
| "fsqrt NaN = NaN"

text \<open>
  Addition of values, with \<open>Fin 0\<close> as its unit, is associative and commutative in exact
  arithmetic, so that sums over index sets can be written with \<open>\<Sum>\<close>.
\<close>

instantiation fval :: comm_monoid_add
begin

definition zero_fval :: fval where
  "zero_fval = Fin 0"

definition plus_fval :: "fval \<Rightarrow> fval \<Rightarrow> fval" where
  "plus_fval a b = fadd a b"

instance
proof
  fix a b c :: fval
  show "a + b + c = a + (b + c)"
    unfolding plus_fval_def by (cases a; cases b; cases c) simp_all
  show "a + b = b + a"
    unfolding plus_fval_def by (cases a; cases b) simp_all
  show "0 + a = a"
    unfolding plus_fval_def zero_fval_def by (cases a) simp_all
qed

end

section \<open>Python errors\<close>

datatype py_error = IndexError | TypeError | KeyError | ValueError

text \<open>Indexing a sequence of length \<open>n\<close>: a negative index counts from the end.\<close>

definition py_index :: "nat \<Rightarrow> int \<Rightarrow> nat option" where
  "py_index n i =
     (if 0 \<le> i \<and> i < int n then Some (nat i)
      else if - int n \<le> i \<and> i < 0 then Some (nat (int n + i))
      else None)"

section \<open>The fitted model and its error band\<close>

text \<open>
  A model function \<open>f(x, p1, ..., pn)\<close> takes a fixed number of parameters and works on
  an array elementwise, with real values on real arguments. Calling it as
  \<open>f(x, *params)\<close> with another number of parameters raises \<open>TypeError\<close>. The evaluation
  points \<open>x\<close>, the parameters and the covariance matrix are taken to be float arrays of
  finite values.
\<close>

record model =
  arity :: nat
  body :: "real \<Rightarrow> real list \<Rightarrow> real"

definition call_model :: "model \<Rightarrow> real list \<Rightarrow> real list \<Rightarrow> py_error + real list" where
  "call_model f x ps =
     (if length ps = arity f then Inr (map (\<lambda>xk. body f xk ps) x) else Inl TypeError)"

definition polynomial_fit :: model where
  "polynomial_fit =
     \<lparr>arity = 4,
      body = (\<lambda>x ps. ps ! 0 * x ^ 3 + ps ! 1 * x ^ 2 + ps ! 2 * x + ps ! 3)\<rparr>"

text \<open>
  \<open>derivative\<close>: the parameter at \<open>index\<close> is moved up and down by \<open>val * abs(params[index])\<close>,
  and half the difference of the two model values is divided by that width.
\<close>

definition derivative :: "real list \<Rightarrow> model \<Rightarrow> real list \<Rightarrow> int \<Rightarrow> py_error + fval list" where
  "derivative x f params index =
     (case py_index (length params) index of
        None \<Rightarrow> Inl IndexError
      | Some i \<Rightarrow>
          let val = 1 / 10 ^ 6;
              delta = (replicate (length params) 0)[i := val * \<bar>params ! i\<bar>];
              up = map2 (+) params delta;
              low = map2 (-) params delta
          in (case call_model f x up of
                Inl e \<Rightarrow> Inl e
              | Inr f_up \<Rightarrow>
                  (case call_model f x low of
                     Inl e \<Rightarrow> Inl e
                   | Inr f_low \<Rightarrow>
                       let diff = map2 (\<lambda>u l. 0.5 * (u - l)) f_up f_low
                       in Inr (map (\<lambda>d. fdiv (Fin d) (Fin (val * \<bar>params ! i\<bar>))) diff))))"

text \<open>\<open>cov_matrix[i, j]\<close> on a two-dimensional array, given as the list of its rows.\<close>

definition cov_at :: "real list list \<Rightarrow> nat \<Rightarrow> nat \<Rightarrow> py_error + real" where
  "cov_at cov i j =
     (if i < length cov \<and> j < length (cov ! i) then Inr (cov ! i ! j) else Inl IndexError)"

text \<open>The inner loop of \<open>error_range\<close>, over the remaining values of \<open>j\<close>.\<close>

fun error_range_inner ::
  "real list \<Rightarrow> model \<Rightarrow> real list \<Rightarrow> real list list \<Rightarrow> nat \<Rightarrow> fval list \<Rightarrow>
   nat list \<Rightarrow> fval list \<Rightarrow> py_error + fval list" where
  "error_range_inner x f params cov i deriv1 [] var = Inr var"
| "error_range_inner x f params cov i deriv1 (j # js) var =
     (case derivative x f params (int j) of
        Inl e \<Rightarrow> Inl e
      | Inr deriv2 \<Rightarrow>
          (case cov_at cov i j of
             Inl e \<Rightarrow> Inl e
           | Inr c \<Rightarrow>
               error_range_inner x f params cov i deriv1 js
                 (map2 fadd var (map (\<lambda>t. fmul t (Fin c)) (map2 fmul deriv1 deriv2)))))"

text \<open>The outer loop, over the remaining values of \<open>i\<close>.\<close>

fun error_range_outer ::
  "real list \<Rightarrow> model \<Rightarrow> real list \<Rightarrow> real list list \<Rightarrow> nat list \<Rightarrow> fval list \<Rightarrow>
   py_error + fval list" where
  "error_range_outer x f params cov [] var = Inr var"
| "error_range_outer x f params cov (i # is) var =
     (case derivative x f params (int i) of
        Inl e \<Rightarrow> Inl e
      | Inr deriv1 \<Rightarrow>
          (case error_range_inner x f params cov i deriv1 [0..<length params] var of
             Inl e \<Rightarrow> Inl e
           | Inr var' \<Rightarrow> error_range_outer x f params cov is var'))"

definition error_range ::
  "real list \<Rightarrow> model \<Rightarrow> real list \<Rightarrow> real list list \<Rightarrow> py_error + fval list" where
  "error_range x f params cov_matrix =
     (case error_range_outer x f params cov_matrix [0..<length params]
             (replicate (length x) (Fin 0)) of
        Inl e \<Rightarrow> Inl e
      | Inr var \<Rightarrow> Inr (map fsqrt var))"


section \<open>Tables\<close>

text \<open>
  A pandas column is a float column, where a missing value is NaN, or an object column of
  strings, where a missing value is \<open>None\<close>. A table is the list of its named columns.
  Rows are addressed by position: the script resets the index to \<open>0, 1, ...\<close> before it
  combines columns, so that alignment on the index is alignment on the position.
\<close>

datatype column = Floats "fval list" | Objects "string option list"

type_synonym frame = "(string \<times> column) list"

fun isnan :: "fval \<Rightarrow> bool" where
  "isnan NaN = True"
| "isnan (Fin r) = False"
| "isnan PInf = False"
| "isnan NInf = False"

text \<open>\<open>df[name]\<close>\<close>

definition get_column :: "frame \<Rightarrow> string \<Rightarrow> py_error + column" where
  "get_column df name = (case map_of df name of None \<Rightarrow> Inl KeyError | Some c \<Rightarrow> Inr c)"

text \<open>\<open>series.notna()\<close>\<close>

fun notna :: "column \<Rightarrow> bool list" where
  "notna (Floats vs) = map (\<lambda>v. \<not> isnan v) vs"
| "notna (Objects ss) = map (\<lambda>s. s \<noteq> None) ss"

text \<open>The rows of a column, and of a table, that a boolean mask keeps: \<open>df[keep]\<close>.\<close>

definition rows_where :: "bool list \<Rightarrow> 'a list \<Rightarrow> 'a list" where
  "rows_where keep vs = map snd (filter fst (zip keep vs))"

fun take_rows :: "bool list \<Rightarrow> column \<Rightarrow> column" where
  "take_rows keep (Floats vs) = Floats (rows_where keep vs)"
| "take_rows keep (Objects ss) = Objects (rows_where keep ss)"

definition boolean_index :: "frame \<Rightarrow> bool list \<Rightarrow> frame" where
  "boolean_index df keep = map (\<lambda>(name, c). (name, take_rows keep c)) df"

text \<open>\<open>df[[name1, name2, ...]]\<close>\<close>

fun select_columns :: "frame \<Rightarrow> string list \<Rightarrow> py_error + frame" where
  "select_columns df [] = Inr []"
| "select_columns df (name # names) =
     (case get_column df name of
        Inl e \<Rightarrow> Inl e
      | Inr c \<Rightarrow>
          (case select_columns df names of
             Inl e \<Rightarrow> Inl e
           | Inr rest \<Rightarrow> Inr ((name, c) # rest)))"

text \<open>\<open>df[name] = series\<close>: an existing column is replaced, a new one is appended.\<close>

fun set_column :: "frame \<Rightarrow> string \<Rightarrow> column \<Rightarrow> frame" where
  "set_column [] name c = [(name, c)]"
| "set_column ((n, old) # rest) name c =
     (if n = name then (n, c) # rest else (n, old) # set_column rest name c)"

text \<open>Arithmetic on columns is elementwise; on an object column it raises \<open>TypeError\<close>.\<close>

fun series_sub :: "column \<Rightarrow> column \<Rightarrow> py_error + column" where
  "series_sub (Floats a) (Floats b) = Inr (Floats (map2 fsub a b))"
| "series_sub (Floats a) (Objects b) = Inl TypeError"
| "series_sub (Objects a) b = Inl TypeError"

fun series_div :: "column \<Rightarrow> column \<Rightarrow> py_error + column" where
  "series_div (Floats a) (Floats b) = Inr (Floats (map2 fdiv a b))"
| "series_div (Floats a) (Objects b) = Inl TypeError"
| "series_div (Objects a) b = Inl TypeError"

fun scalar_times :: "real \<Rightarrow> column \<Rightarrow> py_error + column" where
  "scalar_times k (Floats a) = Inr (Floats (map (fmul (Fin k)) a))"
| "scalar_times k (Objects a) = Inl TypeError"

section \<open>The feature table of the clustering pipeline\<close>

text \<open>
  Tables are objects: a variable of the script holds a reference, and \<open>df[name] = ...\<close>
  changes the object referred to. The store maps references to tables; \<open>fresh\<close> is the
  next unused reference.
\<close>

record store =
  heap :: "nat \<Rightarrow> frame"
  fresh :: nat

definition alloc :: "frame \<Rightarrow> store \<Rightarrow> nat \<times> store" where
  "alloc df s = (fresh s, s\<lparr>heap := (heap s)(fresh s := df), fresh := Suc (fresh s)\<rparr>)"

text \<open>
  Lines 102 and 103: keep the rows whose 1960 and 2020 values are both present, then
  renumber the rows. Each of the two steps returns a new table; the result is the new
  value of the variable \<open>data_Fer\<close>.
\<close>

definition drop_missing :: "store \<Rightarrow> nat \<Rightarrow> py_error + (store \<times> nat)" where
  "drop_missing s data_Fer =
     (case get_column (heap s data_Fer) ''1960'' of
        Inl e \<Rightarrow> Inl e
      | Inr c1960 \<Rightarrow>
          (case get_column (heap s data_Fer) ''2020'' of
             Inl e \<Rightarrow> Inl e
           | Inr c2020 \<Rightarrow>
               let keep = map2 (\<and>) (notna c1960) (notna c2020);
                   (r1, s1) = alloc (boolean_index (heap s data_Fer) keep) s;
                   (r2, s2) = alloc (heap s1 r1) s1
               in Inr (s2, r2)))"

text \<open>
  Line 105: \<open>change = data_Fer[["Country Name", "1960"]].copy()\<close>. The selection is a new
  table and the copy is another one.
\<close>

definition make_change :: "store \<Rightarrow> nat \<Rightarrow> py_error + (store \<times> nat)" where
  "make_change s data_Fer =
     (case select_columns (heap s data_Fer) [''Country Name'', ''1960''] of
        Inl e \<Rightarrow> Inl e
      | Inr selection \<Rightarrow>
          let (r1, s1) = alloc selection s;
              (r2, s2) = alloc (heap s1 r1) s1
          in Inr (s2, r2))"

text \<open>
  Lines 107 and 108:
  \<open>change["Change"] = 100.0/60.0 * (data_Fer["2020"] - data_Fer["1960"]) / data_Fer["1960"]\<close>.
  The right-hand side is evaluated from the left, then the column is stored in the table
  that \<open>change\<close> refers to.
\<close>

definition add_change :: "store \<Rightarrow> nat \<Rightarrow> nat \<Rightarrow> py_error + store" where
  "add_change s data_Fer change =
     (case get_column (heap s data_Fer) ''2020'' of
        Inl e \<Rightarrow> Inl e
      | Inr c2020 \<Rightarrow>
          (case get_column (heap s data_Fer) ''1960'' of
             Inl e \<Rightarrow> Inl e
           | Inr c1960 \<Rightarrow>
               (case series_sub c2020 c1960 of
                  Inl e \<Rightarrow> Inl e
                | Inr difference \<Rightarrow>
                    (case scalar_times (100 / 60) difference of
                       Inl e \<Rightarrow> Inl e
                     | Inr scaled \<Rightarrow>
                         (case get_column (heap s data_Fer) ''1960'' of
                            Inl e \<Rightarrow> Inl e
                          | Inr baseline \<Rightarrow>
                              (case series_div scaled baseline of
                                 Inl e \<Rightarrow> Inl e
                               | Inr rate \<Rightarrow>
                                   Inr (s\<lparr>heap := (heap s)
                                          (change := set_column (heap s change) ''Change'' rate)\<rparr>)))))))"

text \<open>Lines 105 to 108: the feature table is made and its \<open>Change\<close> column is added.\<close>

definition feature_table :: "store \<Rightarrow> nat \<Rightarrow> py_error + (store \<times> nat)" where
  "feature_table s data_Fer =
     (case make_change s data_Fer of
        Inl e \<Rightarrow> Inl e
      | Inr (s1, change) \<Rightarrow>
          (case add_change s1 data_Fer change of
             Inl e \<Rightarrow> Inl e
           | Inr s2 \<Rightarrow> Inr (s2, change)))"

text \<open>
  Lines 99 to 108 on the table that \<open>read_data\<close> returned: the final store and the
  references held by \<open>data_Fer\<close> and \<open>change\<close>.
\<close>

definition build_features :: "frame \<Rightarrow> py_error + (store \<times> nat \<times> nat)" where
  "build_features raw =
     (let (r0, s0) = alloc raw \<lparr>heap = (\<lambda>r. []), fresh = 0\<rparr>
      in case drop_missing s0 r0 of
           Inl e \<Rightarrow> Inl e
         | Inr (s1, data_Fer) \<Rightarrow>
             (case feature_table s1 data_Fer of
                Inl e \<Rightarrow> Inl e
              | Inr (s2, change) \<Rightarrow> Inr (s2, data_Fer, change)))"

text \<open>The columns of the two tables after line 108.\<close>

definition data_Fer_column :: "frame \<Rightarrow> string \<Rightarrow> py_error + column" where
  "data_Fer_column raw name =
     (case build_features raw of
        Inl e \<Rightarrow> Inl e
      | Inr (s, data_Fer, change) \<Rightarrow> get_column (heap s data_Fer) name)"

definition change_column :: "frame \<Rightarrow> string \<Rightarrow> py_error + column" where
  "change_column raw name =
     (case build_features raw of
        Inl e \<Rightarrow> Inl e
      | Inr (s, data_Fer, change) \<Rightarrow> get_column (heap s change) name)"

section \<open>The silhouette sweep\<close>

text \<open>
  scikit-learn is not part of the repository: fitting a \<open>KMeans\<close> object and
  \<open>silhouette_score\<close> are parameters. \<open>kmeans_fit lib n_clusters n_init data g\<close> is the
  array \<open>labels_\<close> after \<open>KMeans(n_clusters, n_init).fit(data)\<close>; k-means starts from random
  centres, so the fit reads and advances the state \<open>g\<close> of the random number generator.
  Both functions may raise.
\<close>

record 'g sklearn =
  kmeans_fit :: "nat \<Rightarrow> nat \<Rightarrow> (real \<times> real) list \<Rightarrow> 'g \<Rightarrow> py_error + (nat list \<times> 'g)"
  silhouette_score :: "(real \<times> real) list \<Rightarrow> nat list \<Rightarrow> py_error + real"

definition one_silhouette ::
  "'g sklearn \<Rightarrow> (real \<times> real) list \<Rightarrow> nat \<Rightarrow> 'g \<Rightarrow> py_error + (real \<times> 'g)" where
  "one_silhouette lib xy num_clusters g =
     (case kmeans_fit lib num_clusters 20 xy g of
        Inl e \<Rightarrow> Inl e
      | Inr (labels, g') \<Rightarrow>
          (case silhouette_score lib xy labels of
             Inl e \<Rightarrow> Inl e
           | Inr score \<Rightarrow> Inr (score, g')))"

text \<open>
  The loop of lines 136 to 138 over the remaining values of \<open>ic\<close>, on the scaled array \<open>norm\<close>. Each pass prints one
  line, recorded as the pair of \<open>ic\<close> and the score.
\<close>

fun silhouette_loop ::
  "'g sklearn \<Rightarrow> (real \<times> real) list \<Rightarrow> nat list \<Rightarrow> (nat \<times> real) list \<Rightarrow> 'g \<Rightarrow>
   py_error + ((nat \<times> real) list \<times> 'g)" where
  "silhouette_loop lib scaled [] printed g = Inr (printed, g)"
| "silhouette_loop lib scaled (ic # rest) printed g =
     (case one_silhouette lib scaled ic g of
        Inl e \<Rightarrow> Inl e
      | Inr (score, g') \<Rightarrow> silhouette_loop lib scaled rest (printed @ [(ic, score)]) g')"

definition silhouette_sweep ::
  "'g sklearn \<Rightarrow> (real \<times> real) list \<Rightarrow> 'g \<Rightarrow> py_error + ((nat \<times> real) list \<times> 'g)" where
  "silhouette_sweep lib scaled g = silhouette_loop lib scaled [2..<11] [] g"

text \<open>
  Lines 136 to 145: the sweep, then the clustering that the rest of the script uses. The
  result is what was printed and the labels of that clustering.
\<close>

definition sweep_and_cluster ::
  "'g sklearn \<Rightarrow> (real \<times> real) list \<Rightarrow> 'g \<Rightarrow>
   py_error + ((nat \<times> real) list \<times> nat list \<times> 'g)" where
  "sweep_and_cluster lib scaled g =
     (case silhouette_sweep lib scaled g of
        Inl e \<Rightarrow> Inl e
      | Inr (printed, g1) \<Rightarrow>
          (case kmeans_fit lib 3 20 scaled g1 of
             Inl e \<Rightarrow> Inl e
           | Inr (labels, g2) \<Rightarrow> Inr (printed, labels, g2)))"

section \<open>Fitting and extrapolating the trend\<close>

text \<open>Python's \<open>max\<close> of a sequence: the first element that no later one exceeds.\<close>

definition py_max :: "real list \<Rightarrow> py_error + real" where
  "py_max xs =
     (case xs of
        [] \<Rightarrow> Inl ValueError
      | x # rest \<Rightarrow> Inr (foldl (\<lambda>m v. if m < v then v else m) x rest))"

text \<open>\<open>np.arange(start, stop)\<close> on floats: \<open>start, start + 1, ...\<close>, below \<open>stop\<close>.\<close>

definition arange :: "real \<Rightarrow> real \<Rightarrow> real list" where
  "arange start stop = map (\<lambda>i. start + real i) [0..<nat \<lceil>stop - start\<rceil>]"

record trend =
  popt :: "real list"
  pcov :: "real list list"
  y_err :: "fval list"
  fut_x :: "real list"
  fut_y :: "real list"
  y_fut_err :: "fval list"
  fitted :: "real list"

text \<open>
  Lines 216 to 235. SciPy's \<open>curve_fit\<close> is a parameter: it returns the parameter vector
  and its covariance matrix, or raises. The years are integers (line 212) converted to
  floats; \<open>fitted\<close> is the curve \<open>polynomial_fit(x_val, *popt)\<close> that line 235 plots.
\<close>

definition fit_and_extrapolate ::
  "(model \<Rightarrow> real list \<Rightarrow> real list \<Rightarrow> py_error + (real list \<times> real list list)) \<Rightarrow>
   int list \<Rightarrow> real list \<Rightarrow> py_error + trend" where
  "fit_and_extrapolate curve_fit years y_val =
     (let x_val = map real_of_int years
      in case curve_fit polynomial_fit x_val y_val of
           Inl e \<Rightarrow> Inl e
         | Inr (p, c) \<Rightarrow>
             (case error_range x_val polynomial_fit p c of
                Inl e \<Rightarrow> Inl e
              | Inr err \<Rightarrow>
                  (case py_max x_val of
                     Inl e \<Rightarrow> Inl e
                   | Inr m \<Rightarrow>
                       let fx = arange (m + 1) 2041
                       in (case call_model polynomial_fit fx p of
                             Inl e \<Rightarrow> Inl e
                           | Inr fy \<Rightarrow>
                               (case error_range fx polynomial_fit p c of
                                  Inl e \<Rightarrow> Inl e
                                | Inr ferr \<Rightarrow>
                                    (case call_model polynomial_fit x_val p of
                                       Inl e \<Rightarrow> Inl e
                                     | Inr curve \<Rightarrow>
                                         Inr \<lparr>popt = p, pcov = c, y_err = err, fut_x = fx,
                                              fut_y = fy, y_fut_err = ferr,
                                              fitted = curve\<rparr>))))))"

section \<open>The error band in double precision\<close>

text \<open>
  NumPy computes in IEEE binary64. The functions above are the script in exact arithmetic;
  the functions of this section are the same lines with the result of every arithmetic
  operation rounded to the nearest double, ties to even, as the hardware does. They decide
  the statements that depend on rounding.
\<close>

text \<open>
  The binary exponent of a positive number: the \<open>e\<close> with \<open>2 ^ e \<le> x < 2 ^ (e + 1)\<close>,
  found by halving or doubling, at most as often as the first argument allows.
\<close>

fun binary_exponent :: "nat \<Rightarrow> real \<Rightarrow> int" where
  "binary_exponent 0 x = 0"
| "binary_exponent (Suc n) x =
     (if 2 \<le> x then binary_exponent n (x / 2) + 1
      else if x < 1 then binary_exponent n (2 * x) - 1
      else 0)"

definition round_half_even :: "real \<Rightarrow> int" where
  "round_half_even r =
     (let f = \<lfloor>r\<rfloor>; d = r - real_of_int f
      in if d < 1 / 2 then f else if 1 / 2 < d then f + 1 else if even f then f else f + 1)"

text \<open>
  Rounding a real number to binary64: 53 significant bits, the least exponent \<open>-1022\<close>
  (below it the spacing stays \<open>2 ^ -1074\<close>), and an infinity from \<open>2 ^ 1024\<close> on.
\<close>

definition round64 :: "real \<Rightarrow> fval" where
  "round64 x =
     (if x = 0 then Fin 0
      else
        let e = max (binary_exponent 1100 \<bar>x\<bar>) (- 1022);
            q = (if 52 \<le> e then 2 ^ nat (e - 52) else 1 / 2 ^ nat (52 - e));
            y = real_of_int (round_half_even (x / q)) * q
        in if 2 ^ 1024 \<le> \<bar>y\<bar> then (if 0 < x then PInf else NInf) else Fin y)"

definition rounded :: "fval \<Rightarrow> fval" where
  "rounded v = (case v of Fin r \<Rightarrow> round64 r | PInf \<Rightarrow> PInf | NInf \<Rightarrow> NInf | NaN \<Rightarrow> NaN)"

fun fabs :: "fval \<Rightarrow> fval" where
  "fabs (Fin a) = Fin \<bar>a\<bar>"
| "fabs PInf = PInf"
| "fabs NInf = PInf"
| "fabs NaN = NaN"

definition dadd :: "fval \<Rightarrow> fval \<Rightarrow> fval" where
  "dadd a b = rounded (fadd a b)"

definition dsub :: "fval \<Rightarrow> fval \<Rightarrow> fval" where
  "dsub a b = rounded (fsub a b)"

definition dmul :: "fval \<Rightarrow> fval \<Rightarrow> fval" where
  "dmul a b = rounded (fmul a b)"

definition ddiv :: "fval \<Rightarrow> fval \<Rightarrow> fval" where
  "ddiv a b = rounded (fdiv a b)"

definition dsqrt :: "fval \<Rightarrow> fval" where
  "dsqrt a = rounded (fsqrt a)"

text \<open>\<open>x ** n\<close> for a literal exponent: the power, rounded once.\<close>

fun dpow :: "fval \<Rightarrow> nat \<Rightarrow> fval" where
  "dpow (Fin a) n = round64 (a ^ n)"
| "dpow PInf n = (if n = 0 then Fin 1 else PInf)"
| "dpow NInf n = (if n = 0 then Fin 1 else if even n then PInf else NInf)"
| "dpow NaN n = (if n = 0 then Fin 1 else NaN)"

record dmodel =
  darity :: nat
  dbody :: "fval \<Rightarrow> fval list \<Rightarrow> fval"

definition call_dmodel :: "dmodel \<Rightarrow> fval list \<Rightarrow> fval list \<Rightarrow> py_error + fval list" where
  "call_dmodel f x ps =
     (if length ps = darity f then Inr (map (\<lambda>xk. dbody f xk ps) x) else Inl TypeError)"

text \<open>Line 36: \<open>a * x**3 + b * x**2 + c * x + d\<close>, evaluated from the left.\<close>

definition polynomial_fit64 :: dmodel where
  "polynomial_fit64 =
     \<lparr>darity = 4,
      dbody = (\<lambda>x ps. dadd (dadd (dadd (dmul (ps ! 0) (dpow x 3)) (dmul (ps ! 1) (dpow x 2)))
                                (dmul (ps ! 2) x))
                          (ps ! 3))\<rparr>"

text \<open>Lines 73 to 79; \<open>val\<close> is the double nearest to \<open>1e-6\<close>.\<close>

definition derivative64 ::
  "fval list \<Rightarrow> dmodel \<Rightarrow> fval list \<Rightarrow> int \<Rightarrow> py_error + fval list" where
  "derivative64 x f params index =
     (case py_index (length params) index of
        None \<Rightarrow> Inl IndexError
      | Some i \<Rightarrow>
          let val = round64 (1 / 10 ^ 6);
              delta = (replicate (length params) (Fin 0))[i := dmul val (fabs (params ! i))];
              up = map2 dadd params delta;
              low = map2 dsub params delta
          in (case call_dmodel f x up of
                Inl e \<Rightarrow> Inl e
              | Inr f_up \<Rightarrow>
                  (case call_dmodel f x low of
                     Inl e \<Rightarrow> Inl e
                   | Inr f_low \<Rightarrow>
                       let diff = map2 (\<lambda>u l. dmul (Fin (1 / 2)) (dsub u l)) f_up f_low
                       in Inr (map (\<lambda>d. ddiv d (dmul val (fabs (params ! i)))) diff))))"

text \<open>Lines 51 to 57, the inner loop, the outer loop and the function.\<close>

fun error_range64_inner ::
  "fval list \<Rightarrow> dmodel \<Rightarrow> fval list \<Rightarrow> real list list \<Rightarrow> nat \<Rightarrow> fval list \<Rightarrow>
   nat list \<Rightarrow> fval list \<Rightarrow> py_error + fval list" where
  "error_range64_inner x f params cov i deriv1 [] var = Inr var"
| "error_range64_inner x f params cov i deriv1 (j # js) var =
     (case derivative64 x f params (int j) of
        Inl e \<Rightarrow> Inl e
      | Inr deriv2 \<Rightarrow>
          (case cov_at cov i j of
             Inl e \<Rightarrow> Inl e
           | Inr c \<Rightarrow>
               error_range64_inner x f params cov i deriv1 js
                 (map2 dadd var (map (\<lambda>t. dmul t (Fin c)) (map2 dmul deriv1 deriv2)))))"

fun error_range64_outer ::
  "fval list \<Rightarrow> dmodel \<Rightarrow> fval list \<Rightarrow> real list list \<Rightarrow> nat list \<Rightarrow> fval list \<Rightarrow>
   py_error + fval list" where
  "error_range64_outer x f params cov [] var = Inr var"
| "error_range64_outer x f params cov (i # is) var =
     (case derivative64 x f params (int i) of
        Inl e \<Rightarrow> Inl e
      | Inr deriv1 \<Rightarrow>
          (case error_range64_inner x f params cov i deriv1 [0..<length params] var of
             Inl e \<Rightarrow> Inl e
           | Inr var' \<Rightarrow> error_range64_outer x f params cov is var'))"

definition error_range64 ::
  "fval list \<Rightarrow> dmodel \<Rightarrow> fval list \<Rightarrow> real list list \<Rightarrow> py_error + fval list" where
  "error_range64 x f params cov_matrix =
     (case error_range64_outer x f params cov_matrix [0..<length params]
             (replicate (length x) (Fin 0)) of
        Inl e \<Rightarrow> Inl e
      | Inr var \<Rightarrow> Inr (map dsqrt var))"

section \<open>The robust scaler\<close>







section \<open>Auxiliary notions for the statements\<close>

text \<open>
  The value \<open>derivative\<close> computes at one evaluation point \<open>xk\<close> for the parameter at
  position \<open>i\<close>: the halved difference of the model at the two perturbed parameter
  vectors, divided by the perturbation width.
\<close>

definition derivative_at :: "model \<Rightarrow> real list \<Rightarrow> nat \<Rightarrow> real \<Rightarrow> fval" where
  "derivative_at f params i xk =
     fdiv (Fin (0.5 * (body f xk (params[i := params ! i + 1 / 10 ^ 6 * \<bar>params ! i\<bar>])
                     - body f xk (params[i := params ! i - 1 / 10 ^ 6 * \<bar>params ! i\<bar>]))))
          (Fin (1 / 10 ^ 6 * \<bar>params ! i\<bar>))"

text \<open>The same quotient as a real number, meaningful where the width is not zero.\<close>

definition finite_difference :: "model \<Rightarrow> real list \<Rightarrow> nat \<Rightarrow> real \<Rightarrow> real" where
  "finite_difference f params i xk =
     0.5 * (body f xk (params[i := params ! i + 1 / 10 ^ 6 * \<bar>params ! i\<bar>])
          - body f xk (params[i := params ! i - 1 / 10 ^ 6 * \<bar>params ! i\<bar>]))
     / (1 / 10 ^ 6 * \<bar>params ! i\<bar>)"

text \<open>One summand of the variance, as line 56 of the script computes it.\<close>

definition variance_term ::
  "model \<Rightarrow> real list \<Rightarrow> real list list \<Rightarrow> nat \<Rightarrow> nat \<Rightarrow> real \<Rightarrow> fval" where
  "variance_term f params cov i j xk =
     fmul (fmul (derivative_at f params i xk) (derivative_at f params j xk)) (Fin (cov ! i ! j))"

definition positive_semidefinite :: "real list list \<Rightarrow> bool" where
  "positive_semidefinite C \<longleftrightarrow>
     (\<forall>v. length v = length C \<longrightarrow>
        0 \<le> (\<Sum>i<length C. \<Sum>j<length C. v ! i * v ! j * C ! i ! j))"

section \<open>Properties of the finite-difference derivative\<close>

lemma map2_add_upd:
  "i < length ps \<Longrightarrow>
   map2 (+) ps ((replicate (length ps) (0::real))[i := w]) = ps[i := ps ! i + w]"
  by (auto simp: list_eq_iff_nth_eq nth_list_update)

lemma map2_sub_upd:
  "i < length ps \<Longrightarrow>
   map2 (-) ps ((replicate (length ps) (0::real))[i := w]) = ps[i := ps ! i - w]"
  by (auto simp: list_eq_iff_nth_eq nth_list_update)

lemma py_index_lt: "py_index n index = Some i \<Longrightarrow> i < n"
  by (auto simp: py_index_def split: if_splits)

lemma py_index_nat: "i < n \<Longrightarrow> py_index n (int i) = Some i"
  by (simp add: py_index_def)

lemma derivative_pointwise:
  assumes "py_index (length params) index = Some i" and "arity f = length params"
  shows "derivative x f params index = Inr (map (derivative_at f params i) x)"
proof -
  have i: "i < length params" using assms(1) by (rule py_index_lt)
  show ?thesis
    using assms i
    by (simp add: derivative_def derivative_at_def call_model_def Let_def map2_add_upd
        map2_sub_upd list_eq_iff_nth_eq)
qed

lemma derivative_at_finite:
  "params ! i \<noteq> 0 \<Longrightarrow> derivative_at f params i xk = Fin (finite_difference f params i xk)"
  by (simp add: derivative_at_def finite_difference_def)

lemma derivative_at_zero: "params ! i = 0 \<Longrightarrow> derivative_at f params i xk = NaN"
  by (simp add: derivative_at_def)

text \<open>
  Claim C4. When \<open>params[index]\<close> is exactly zero, the perturbation width
  \<open>val * abs(params[index])\<close> is zero; \<open>derivative\<close> has no fallback to an absolute
  epsilon and divides by it: the two perturbed parameter vectors coincide, the difference
  is zero, and the quotient \<open>0 / 0\<close> is NaN, which is not a finite number, at every
  evaluation point.
\<close>

theorem derivative_zero_param_nan:
  assumes "py_index (length params) index = Some i" and "params ! i = 0"
    and "arity f = length params"
  shows "derivative x f params index = Inr (replicate (length x) NaN)
       \<and> (\<forall>v\<in>set (replicate (length x) NaN). \<not> is_finite v)"
proof
  show "derivative x f params index = Inr (replicate (length x) NaN)"
    using assms by (simp add: derivative_pointwise derivative_at_zero list_eq_iff_nth_eq)
  show "\<forall>v\<in>set (replicate (length x) NaN). \<not> is_finite v"
    by simp
qed

theorem derivative_zero_param_nan_witness:
  "py_index (length [0, 1, 1, 1 :: real]) 0 = Some 0 \<and> [0, 1, 1, 1 :: real] ! 0 = 0
   \<and> arity polynomial_fit = length [0, 1, 1, 1 :: real]
   \<and> derivative [1, 2] polynomial_fit [0, 1, 1, 1] 0 = Inr [NaN, NaN]
   \<and> \<not> is_finite NaN"
proof -
  have h1: "py_index (length [0, 1, 1, 1 :: real]) 0 = Some 0"
    by (simp add: py_index_def)
  have h2: "[0, 1, 1, 1 :: real] ! 0 = 0"
    by simp
  have h3: "arity polynomial_fit = length [0, 1, 1, 1 :: real]"
    by (simp add: polynomial_fit_def)
  from derivative_zero_param_nan [OF h1 h2 h3, of "[1, 2]"]
  have "derivative [1, 2] polynomial_fit [0, 1, 1, 1] 0
      = Inr (replicate (length [1, 2 :: real]) NaN)"
    and "\<forall>v\<in>set (replicate (length [1, 2 :: real]) NaN). \<not> is_finite v"
    by blast+
  then have "derivative [1, 2] polynomial_fit [0, 1, 1, 1] 0 = Inr [NaN, NaN]"
    and "\<not> is_finite NaN"
    by simp_all
  with h1 h2 h3 show ?thesis by blast
qed

section \<open>The loops of the error band\<close>

lemma accumulate_step:
  "map2 fadd (map V x) (map (\<lambda>t. fmul t (Fin c)) (map2 fmul (map A x) (map B x)))
   = map (\<lambda>xk. V xk + fmul (fmul (A xk) (B xk)) (Fin c)) x"
  by (simp add: list_eq_iff_nth_eq plus_fval_def)

lemma inner_loop_value:
  assumes "arity f = length params" and "i < length cov"
    and "\<forall>j\<in>set js. j < length params \<and> j < length (cov ! i)"
  shows "error_range_inner x f params cov i (map (derivative_at f params i) x) js (map V x)
       = Inr (map (\<lambda>xk. V xk + (\<Sum>j\<leftarrow>js. variance_term f params cov i j xk)) x)"
  using assms(3)
proof (induction js arbitrary: V)
  case Nil
  then show ?case by simp
next
  case (Cons j js)
  have d: "derivative x f params (int j) = Inr (map (derivative_at f params j) x)"
    using Cons.prems assms(1) by (simp add: derivative_pointwise py_index_nat)
  have c: "cov_at cov i j = Inr (cov ! i ! j)"
    using Cons.prems assms(2) by (simp add: cov_at_def)
  have "\<forall>j\<in>set js. j < length params \<and> j < length (cov ! i)"
    using Cons.prems by simp
  from Cons.IH[OF this, of "\<lambda>xk. V xk + variance_term f params cov i j xk"]
  show ?case
    unfolding error_range_inner.simps d c sum.case accumulate_step variance_term_def
    by (simp add: add.assoc)
qed

lemma outer_loop_value:
  assumes "arity f = length params"
    and "\<forall>i\<in>set is. i < length params \<and> i < length cov \<and> length (cov ! i) = length params"
  shows "error_range_outer x f params cov is (map V x)
       = Inr (map (\<lambda>xk. V xk + (\<Sum>i\<leftarrow>is. \<Sum>j<length params. variance_term f params cov i j xk)) x)"
  using assms(2)
proof (induction "is" arbitrary: V)
  case Nil
  then show ?case by simp
next
  case (Cons i "is")
  have d: "derivative x f params (int i) = Inr (map (derivative_at f params i) x)"
    using Cons.prems assms(1) by (simp add: derivative_pointwise py_index_nat)
  have inner: "error_range_inner x f params cov i (map (derivative_at f params i) x)
         [0..<length params] (map V x)
       = Inr (map (\<lambda>xk. V xk + (\<Sum>j<length params. variance_term f params cov i j xk)) x)"
    using Cons.prems assms(1)
    by (subst inner_loop_value) (simp_all add: interv_sum_list_conv_sum_set_nat atLeast0LessThan)
  have "\<forall>i\<in>set is. i < length params \<and> i < length cov \<and> length (cov ! i) = length params"
    using Cons.prems by simp
  from Cons.IH[OF this] show ?case
    by (simp add: d inner add.assoc)
qed

lemma error_range_value:
  assumes "arity f = length params" and "length cov = length params"
    and "\<forall>row\<in>set cov. length row = length params"
  shows "error_range x f params cov
       = Inr (map (\<lambda>xk. fsqrt (\<Sum>i<length params. \<Sum>j<length params.
                                   variance_term f params cov i j xk)) x)"
proof -
  have "replicate (length x) (Fin 0) = map (\<lambda>xk. 0) x"
    by (simp add: list_eq_iff_nth_eq zero_fval_def)
  moreover have "\<forall>i\<in>set [0..<length params].
      i < length params \<and> i < length cov \<and> length (cov ! i) = length params"
    using assms(2,3) by simp
  ultimately show ?thesis
    using assms(1)
    by (simp add: error_range_def outer_loop_value interv_sum_list_conv_sum_set_nat
        atLeast0LessThan)
qed

lemma sum_Fin: "(\<Sum>i\<in>A. Fin (g i)) = Fin (\<Sum>i\<in>A. g i)"
proof (cases "finite A")
  case True
  then show ?thesis
    by (induction A rule: finite_induct) (simp_all add: zero_fval_def plus_fval_def)
next
  case False
  then show ?thesis by (simp add: zero_fval_def)
qed

lemma variance_finite:
  assumes "\<forall>i<length params. params ! i \<noteq> 0"
  shows "(\<Sum>i<length params. \<Sum>j<length params. variance_term f params cov i j xk)
       = Fin (\<Sum>i<length params. \<Sum>j<length params.
                finite_difference f params i xk * finite_difference f params j xk * cov ! i ! j)"
proof -
  have "variance_term f params cov i j xk
      = Fin (finite_difference f params i xk * finite_difference f params j xk * cov ! i ! j)"
    if "i < length params" "j < length params" for i j
    using that assms by (simp add: variance_term_def derivative_at_finite)
  then show ?thesis
    by (simp add: sum_Fin)
qed

section \<open>The cubic model\<close>

lemma half_difference:
  fixes u l w m :: real
  assumes "w \<noteq> 0" and "u - l = 2 * (w * m)"
  shows "0.5 * (u - l) / w = m"
  using assms by simp

lemma arity_polynomial_fit: "arity polynomial_fit = 4"
  by (simp add: polynomial_fit_def)

lemma body_polynomial_fit:
  "body polynomial_fit x [a, b, c, d] = a * x ^ 3 + b * x ^ 2 + c * x + d"
  by (simp add: polynomial_fit_def)

lemma fd0:
  assumes "a \<noteq> 0"
  shows "finite_difference polynomial_fit [a, b, c, d] 0 xk = xk ^ 3"
proof -
  define w where "w = 1 / 10 ^ 6 * \<bar>a\<bar>"
  have w: "w \<noteq> 0" using assms by (simp add: w_def)
  have "finite_difference polynomial_fit [a, b, c, d] 0 xk
      = 0.5 * (body polynomial_fit xk [a + w, b, c, d] - body polynomial_fit xk [a - w, b, c, d]) / w"
    by (simp add: finite_difference_def w_def)
  also have "\<dots> = xk ^ 3"
    by (rule half_difference[OF w]) (simp add: body_polynomial_fit algebra_simps)
  finally show ?thesis .
qed

lemma fd1:
  assumes "b \<noteq> 0"
  shows "finite_difference polynomial_fit [a, b, c, d] 1 xk = xk ^ 2"
proof -
  define w where "w = 1 / 10 ^ 6 * \<bar>b\<bar>"
  have w: "w \<noteq> 0" using assms by (simp add: w_def)
  have "finite_difference polynomial_fit [a, b, c, d] 1 xk
      = 0.5 * (body polynomial_fit xk [a, b + w, c, d] - body polynomial_fit xk [a, b - w, c, d]) / w"
    by (simp add: finite_difference_def w_def)
  also have "\<dots> = xk ^ 2"
    by (rule half_difference[OF w]) (simp add: body_polynomial_fit algebra_simps)
  finally show ?thesis .
qed

lemma fd2:
  assumes "c \<noteq> 0"
  shows "finite_difference polynomial_fit [a, b, c, d] 2 xk = xk"
proof -
  define w where "w = 1 / 10 ^ 6 * \<bar>c\<bar>"
  have w: "w \<noteq> 0" using assms by (simp add: w_def)
  have "finite_difference polynomial_fit [a, b, c, d] 2 xk
      = 0.5 * (body polynomial_fit xk [a, b, c + w, d] - body polynomial_fit xk [a, b, c - w, d]) / w"
    by (simp add: finite_difference_def w_def numeral_2_eq_2)
  also have "\<dots> = xk"
    by (rule half_difference[OF w]) (simp add: body_polynomial_fit algebra_simps)
  finally show ?thesis .
qed

lemma fd3:
  assumes "d \<noteq> 0"
  shows "finite_difference polynomial_fit [a, b, c, d] 3 xk = 1"
proof -
  define w where "w = 1 / 10 ^ 6 * \<bar>d\<bar>"
  have w: "w \<noteq> 0" using assms by (simp add: w_def)
  have "finite_difference polynomial_fit [a, b, c, d] 3 xk
      = 0.5 * (body polynomial_fit xk [a, b, c, d + w] - body polynomial_fit xk [a, b, c, d - w]) / w"
    by (simp add: finite_difference_def w_def numeral_3_eq_3)
  also have "\<dots> = 1"
    by (rule half_difference[OF w]) (simp add: body_polynomial_fit algebra_simps)
  finally show ?thesis .
qed

lemma finite_difference_polynomial:
  assumes "length params = 4" and "i < 4" and "params ! i \<noteq> 0"
  shows "finite_difference polynomial_fit params i xk = xk ^ (3 - i)"
proof -
  from assms(1) obtain a b c d where ps: "params = [a, b, c, d]"
    by (auto simp: length_Suc_conv numeral_eq_Suc)
  from assms(2) consider "i = 0" | "i = 1" | "i = 2" | "i = 3"
    by linarith
  then show ?thesis
  proof cases
    case 1
    then show ?thesis using assms(3) ps fd0[of a b c d xk] by simp
  next
    case 2
    then show ?thesis using assms(3) ps fd1[of b a c d xk] by simp
  next
    case 3
    then show ?thesis using assms(3) ps fd2[of c a b d xk] by simp
  next
    case 4
    then show ?thesis using assms(3) ps fd3[of d a b c xk] by simp
  qed
qed

section \<open>Properties of the error band\<close>

text \<open>
  Claim C1. For an evaluation-point array \<open>x\<close>, a model \<open>f\<close> taking as many parameters
  as \<open>params\<close> has entries, and an \<open>n\<close>-by-\<open>n\<close> covariance matrix, \<open>error_range\<close>
  returns, at each point \<open>k\<close>, the square root of the sum over all \<open>i\<close> and \<open>j\<close> of
  \<open>D i ! k * D j ! k * cov[i, j]\<close>, where \<open>D i\<close> is the array that \<open>derivative\<close> returns
  for the parameter at position \<open>i\<close>.
\<close>

theorem error_range_bilinear_form:
  assumes "arity f = length params" and "length cov = length params"
    and "\<forall>row\<in>set cov. length row = length params"
  shows "\<exists>D. (\<forall>i<length params. derivative x f params (int i) = Inr (D i)) \<and>
     error_range x f params cov
       = Inr (map (\<lambda>k. fsqrt (\<Sum>i<length params. \<Sum>j<length params.
                                  fmul (fmul (D i ! k) (D j ! k)) (Fin (cov ! i ! j))))
                [0..<length x])"
proof -
  let ?D = "\<lambda>i. map (derivative_at f params i) x"
  have d: "\<forall>i<length params. derivative x f params (int i) = Inr (?D i)"
    using assms(1) by (simp add: derivative_pointwise py_index_nat)
  have "map (\<lambda>k. fsqrt (\<Sum>i<length params. \<Sum>j<length params.
                fmul (fmul (?D i ! k) (?D j ! k)) (Fin (cov ! i ! j)))) [0..<length x]
      = map (\<lambda>xk. fsqrt (\<Sum>i<length params. \<Sum>j<length params.
                variance_term f params cov i j xk)) x"
    by (rule nth_equalityI) (simp_all add: variance_term_def)
  then have er: "error_range x f params cov
      = Inr (map (\<lambda>k. fsqrt (\<Sum>i<length params. \<Sum>j<length params.
                fmul (fmul (?D i ! k) (?D j ! k)) (Fin (cov ! i ! j)))) [0..<length x])"
    by (simp only: error_range_value [OF assms])
  show ?thesis
    by (rule exI [of _ ?D]) (intro conjI d er)
qed

theorem error_range_bilinear_form_witness:
  "arity polynomial_fit = length [1, 1, 1, 1 :: real]
   \<and> length [[1, 0, 0, 0], [0, 1, 0, 0], [0, 0, 1, 0], [0, 0, 0, 1 :: real]]
       = length [1, 1, 1, 1 :: real]
   \<and> (\<exists>D. (\<forall>i<length [1, 1, 1, 1 :: real].
               derivative [2] polynomial_fit [1, 1, 1, 1] (int i) = Inr (D i)) \<and>
         error_range [2] polynomial_fit [1, 1, 1, 1]
             [[1, 0, 0, 0], [0, 1, 0, 0], [0, 0, 1, 0], [0, 0, 0, 1]]
           = Inr (map (\<lambda>k. fsqrt (\<Sum>i<length [1, 1, 1, 1 :: real].
                                    \<Sum>j<length [1, 1, 1, 1 :: real].
                 fmul (fmul (D i ! k) (D j ! k))
                 (Fin ([[1, 0, 0, 0], [0, 1, 0, 0], [0, 0, 1, 0], [0, 0, 0, 1]] ! i ! j))))
                [0..<length [2 :: real]]))"
proof -
  have h1: "arity polynomial_fit = length [1, 1, 1, 1 :: real]"
    by (simp add: polynomial_fit_def)
  have h2: "length [[1, 0, 0, 0], [0, 1, 0, 0], [0, 0, 1, 0], [0, 0, 0, 1 :: real]]
       = length [1, 1, 1, 1 :: real]"
    by simp
  have h3: "\<forall>row\<in>set [[1, 0, 0, 0], [0, 1, 0, 0], [0, 0, 1, 0], [0, 0, 0, 1 :: real]].
         length row = length [1, 1, 1, 1 :: real]"
    by simp
  show ?thesis
    by (intro conjI h1 h2 error_range_bilinear_form [OF h1 h2 h3])
qed

text \<open>
  Claim C2, as amended. In exact arithmetic, for the cubic model and a parameter whose
  value is not zero, the central difference that \<open>derivative\<close> computes is the analytic
  partial derivative with respect to that coefficient: \<open>x ^ 3\<close>, \<open>x ^ 2\<close>, \<open>x\<close> and \<open>1\<close>
  for the positions 0 to 3. Consequently, in exact arithmetic and when no parameter is
  zero, \<open>error_range\<close> is the square root of the analytic delta-method variance.
\<close>

theorem derivative_polynomial_exact:
  assumes "length params = 4"
  shows "(\<forall>i<4. params ! i \<noteq> 0 \<longrightarrow>
            derivative x polynomial_fit params (int i) = Inr (map (\<lambda>xk. Fin (xk ^ (3 - i))) x))
       \<and> ((\<forall>i<4. params ! i \<noteq> 0) \<and> length cov = 4 \<and> (\<forall>row\<in>set cov. length row = 4) \<longrightarrow>
            error_range x polynomial_fit params cov
              = Inr (map (\<lambda>xk. fsqrt (Fin (\<Sum>i<4. \<Sum>j<4. xk ^ (3 - i) * xk ^ (3 - j) * cov ! i ! j))) x))"
proof (intro conjI allI impI)
  fix i :: nat assume "i < 4" "params ! i \<noteq> 0"
  then show "derivative x polynomial_fit params (int i) = Inr (map (\<lambda>xk. Fin (xk ^ (3 - i))) x)"
    using assms
    by (simp add: derivative_pointwise py_index_nat arity_polynomial_fit derivative_at_finite
        finite_difference_polynomial)
next
  assume h: "(\<forall>i<4. params ! i \<noteq> 0) \<and> length cov = 4 \<and> (\<forall>row\<in>set cov. length row = 4)"
  have ar: "arity polynomial_fit = length params"
    using assms by (simp add: arity_polynomial_fit)
  have nz: "\<forall>i<length params. params ! i \<noteq> 0" using h assms by simp
  have "error_range x polynomial_fit params cov
      = Inr (map (\<lambda>xk. fsqrt (\<Sum>i<length params. \<Sum>j<length params.
                                   variance_term polynomial_fit params cov i j xk)) x)"
    using ar h assms by (intro error_range_value) simp_all
  also have "\<dots> = Inr (map (\<lambda>xk. fsqrt (Fin (\<Sum>i<4. \<Sum>j<4.
                  xk ^ (3 - i) * xk ^ (3 - j) * cov ! i ! j))) x)"
    unfolding variance_finite[OF nz] using assms h
    by (simp add: finite_difference_polynomial)
  finally show "error_range x polynomial_fit params cov
      = Inr (map (\<lambda>xk. fsqrt (Fin (\<Sum>i<4. \<Sum>j<4. xk ^ (3 - i) * xk ^ (3 - j) * cov ! i ! j))) x)" .
qed



theorem derivative_polynomial_exact_witness:
  "length [2, 3, 5, 7 :: real] = 4
   \<and> derivative [2] polynomial_fit [2, 3, 5, 7] (int 0) = Inr [Fin 8]
   \<and> derivative [2] polynomial_fit [2, 3, 5, 7] (int 1) = Inr [Fin 4]
   \<and> derivative [2] polynomial_fit [2, 3, 5, 7] (int 2) = Inr [Fin 2]
   \<and> derivative [2] polynomial_fit [2, 3, 5, 7] (int 3) = Inr [Fin 1]
   \<and> error_range [2] polynomial_fit [2, 3, 5, 7]
          [[1, 0, 0, 0], [0, 1, 0, 0], [0, 0, 1, 0], [0, 0, 0, 1]]
        = Inr [Fin (sqrt 85)]"
proof -
  have len: "length [2, 3, 5, 7 :: real] = 4"
    by simp
  have nz: "\<forall>i<4. [2, 3, 5, 7 :: real] ! i \<noteq> 0"
    by (simp add: eval_nat_numeral less_Suc_eq)
  have h2: "length [[1, 0, 0, 0], [0, 1, 0, 0], [0, 0, 1, 0], [0, 0, 0, 1 :: real]] = 4"
    by simp
  have h3: "\<forall>row\<in>set [[1, 0, 0, 0], [0, 1, 0, 0], [0, 0, 1, 0], [0, 0, 0, 1 :: real]].
         length row = 4"
    by simp
  note c2 = derivative_polynomial_exact
    [OF len, of "[2]" "[[1, 0, 0, 0], [0, 1, 0, 0], [0, 0, 1, 0], [0, 0, 0, 1]]"]
  have a: "derivative [2] polynomial_fit [2, 3, 5, 7] (int i)
                = Inr (map (\<lambda>xk. Fin (xk ^ (3 - i))) [2])" if "i < 4" for i
    using conjunct1 [OF c2] nz that by blast
  have b: "error_range [2] polynomial_fit [2, 3, 5, 7]
          [[1, 0, 0, 0], [0, 1, 0, 0], [0, 0, 1, 0], [0, 0, 0, 1]]
        = Inr (map (\<lambda>xk. fsqrt (Fin (\<Sum>i<4. \<Sum>j<4. xk ^ (3 - i) * xk ^ (3 - j)
              * [[1, 0, 0, 0], [0, 1, 0, 0], [0, 0, 1, 0], [0, 0, 0, 1]] ! i ! j))) [2])"
    using conjunct2 [OF c2] nz h2 h3 by blast
  have d0: "derivative [2] polynomial_fit [2, 3, 5, 7] (int 0) = Inr [Fin 8]"
    using a [of 0] by simp
  have d1: "derivative [2] polynomial_fit [2, 3, 5, 7] (int 1) = Inr [Fin 4]"
    using a [of 1] by simp
  have d2: "derivative [2] polynomial_fit [2, 3, 5, 7] (int 2) = Inr [Fin 2]"
    using a [of 2] by simp
  have d3: "derivative [2] polynomial_fit [2, 3, 5, 7] (int 3) = Inr [Fin 1]"
    using a [of 3] by simp
  have e: "error_range [2] polynomial_fit [2, 3, 5, 7]
          [[1, 0, 0, 0], [0, 1, 0, 0], [0, 0, 1, 0], [0, 0, 0, 1]] = Inr [Fin (sqrt 85)]"
    unfolding b by (simp add: eval_nat_numeral)
  show ?thesis
    by (intro conjI len d0 d1 d2 d3 e)
qed

text \<open>
  Claim C9, as amended. In exact arithmetic, when no parameter is zero and the covariance
  matrix is positive semidefinite, the variance \<open>error_range\<close> accumulates at each point
  is a quadratic form of the finite-difference derivatives and is not negative: every
  value returned is a finite real number that is at least zero. (Symmetry of the matrix
  is not needed.)
\<close>

theorem error_range_nonnegative:
  assumes "arity f = length params" and "\<forall>i<length params. params ! i \<noteq> 0"
    and "length cov = length params" and "\<forall>row\<in>set cov. length row = length params"
    and "positive_semidefinite cov"
  shows "\<exists>errs. error_range x f params cov = Inr (map Fin errs) \<and> length errs = length x
            \<and> (\<forall>e\<in>set errs. 0 \<le> e)"
proof -
  let ?n = "length params"
  let ?q = "\<lambda>xk. \<Sum>i<?n. \<Sum>j<?n.
      finite_difference f params i xk * finite_difference f params j xk * cov ! i ! j"
  have nonneg: "0 \<le> ?q xk" for xk
  proof -
    let ?v = "map (\<lambda>i. finite_difference f params i xk) [0..<?n]"
    have "length ?v = length cov" using assms(3) by simp
    with assms(5) have "0 \<le> (\<Sum>i<length cov. \<Sum>j<length cov. ?v ! i * ?v ! j * cov ! i ! j)"
      unfolding positive_semidefinite_def by blast
    also have "\<dots> = ?q xk"
      unfolding assms(3) by (intro sum.cong refl) simp
    finally show ?thesis .
  qed
  have "error_range x f params cov = Inr (map (\<lambda>xk. fsqrt (Fin (?q xk))) x)"
    using assms(1,3,4) by (simp add: error_range_value variance_finite[OF assms(2)])
  also have "\<dots> = Inr (map Fin (map (\<lambda>xk. sqrt (?q xk)) x))"
  proof -
    have "fsqrt (Fin (?q xk)) = Fin (sqrt (?q xk))" for xk
      using nonneg[of xk] by simp
    then show ?thesis by simp
  qed
  finally have "error_range x f params cov = Inr (map Fin (map (\<lambda>xk. sqrt (?q xk)) x))" .
  moreover have "\<forall>e\<in>set (map (\<lambda>xk. sqrt (?q xk)) x). 0 \<le> e"
    using nonneg by simp
  ultimately show ?thesis
    by (intro exI[of _ "map (\<lambda>xk. sqrt (?q xk)) x"]) simp
qed



theorem error_range_nonnegative_witness:
  "arity polynomial_fit = length [2, 3, 5, 7 :: real]
   \<and> length [[1, 0, 0, 0], [0, 1, 0, 0], [0, 0, 1, 0], [0, 0, 0, 1 :: real]]
       = length [2, 3, 5, 7 :: real]
   \<and> positive_semidefinite [[1, 0, 0, 0], [0, 1, 0, 0], [0, 0, 1, 0], [0, 0, 0, 1]]
   \<and> (\<exists>errs. error_range [2, 10] polynomial_fit [2, 3, 5, 7]
                 [[1, 0, 0, 0], [0, 1, 0, 0], [0, 0, 1, 0], [0, 0, 0, 1]] = Inr (map Fin errs)
         \<and> length errs = length [2, 10 :: real] \<and> (\<forall>e\<in>set errs. 0 \<le> e))"
proof -
  have h1: "arity polynomial_fit = length [2, 3, 5, 7 :: real]"
    by (simp add: polynomial_fit_def)
  have h2: "\<forall>i<length [2, 3, 5, 7 :: real]. [2, 3, 5, 7 :: real] ! i \<noteq> 0"
    by (simp add: less_Suc_eq)
  have h3: "length [[1, 0, 0, 0], [0, 1, 0, 0], [0, 0, 1, 0], [0, 0, 0, 1 :: real]]
       = length [2, 3, 5, 7 :: real]"
    by simp
  have h4: "\<forall>row\<in>set [[1, 0, 0, 0], [0, 1, 0, 0], [0, 0, 1, 0], [0, 0, 0, 1 :: real]].
         length row = length [2, 3, 5, 7 :: real]"
    by simp
  have h5: "positive_semidefinite [[1, 0, 0, 0], [0, 1, 0, 0], [0, 0, 1, 0], [0, 0, 0, 1]]"
    by (simp add: positive_semidefinite_def eval_nat_numeral)
  show ?thesis
    by (intro conjI h1 h3 h5 error_range_nonnegative [OF h1 h2 h3 h4 h5])
qed

section \<open>Properties in double precision\<close>

lemma binary_exponent_numeral:
  "binary_exponent (numeral n) x =
     (if 2 \<le> x then binary_exponent (pred_numeral n) (x / 2) + 1
      else if x < 1 then binary_exponent (pred_numeral n) (2 * x) - 1
      else 0)"
  by (simp add: numeral_eq_Suc)

lemmas double_eval =
  round64_def round_half_even_def Let_def binary_exponent_numeral rounded_def
  dadd_def dsub_def dmul_def ddiv_def fsub_def

lemma derivative64_2000_0:
  "derivative64 [Fin 2000] polynomial_fit64 [Fin 1, Fin 1, Fin 1, Fin 1] 0
   = Inr [Fin (262143999984375 / 32768)]"
  by (simp add: derivative64_def py_index_def call_dmodel_def polynomial_fit64_def double_eval)

lemma derivative64_2000_1:
  "derivative64 [Fin 2000] polynomial_fit64 [Fin 1, Fin 1, Fin 1, Fin 1] 1
   = Inr [Fin 4000000]"
  by (simp add: derivative64_def py_index_def call_dmodel_def polynomial_fit64_def double_eval)

lemma derivative64_2000_2:
  "derivative64 [Fin 2000] polynomial_fit64 [Fin 1, Fin 1, Fin 1, Fin 1] 2
   = Inr [Fin (32765625 / 16384)]"
  by (simp add: derivative64_def py_index_def call_dmodel_def polynomial_fit64_def double_eval)

lemma derivative64_2000_3:
  "derivative64 [Fin 2000] polynomial_fit64 [Fin 1, Fin 1, Fin 1, Fin 1] 3
   = Inr [Fin (15625 / 16384)]"
  by (simp add: derivative64_def py_index_def call_dmodel_def polynomial_fit64_def double_eval)

lemma sqrt_d3: "sqrt (244140625 / 268435456) = 15625 / 16384"
  by (rule real_sqrt_unique) (simp_all add: power2_eq_square)

lemma psd_rank_one:
  "positive_semidefinite
     [[1, - 2000, 0, 0], [- 2000, 4000000, 0, 0], [0, 0, 0, 0], [0, 0, 0, 0]]"
proof -
  have "0 \<le> (\<Sum>i<4. \<Sum>j<4. v ! i * v ! j *
      [[1, - 2000, 0, 0], [- 2000, 4000000, 0, 0], [0, 0, 0, 0], [0, 0, 0, 0 :: real]] ! i ! j)"
    for v :: "real list"
  proof -
    have "(\<Sum>i<4. \<Sum>j<4. v ! i * v ! j *
      [[1, - 2000, 0, 0], [- 2000, 4000000, 0, 0], [0, 0, 0, 0], [0, 0, 0, 0 :: real]] ! i ! j)
      = (v ! 0 - 2000 * v ! 1) ^ 2"
      by (simp add: eval_nat_numeral power2_eq_square algebra_simps)
    then show ?thesis by simp
  qed
  moreover have
    "length [[1, - 2000, 0, 0], [- 2000, 4000000, 0, 0], [0, 0, 0, 0], [0, 0, 0, 0 :: real]] = 4"
    by simp
  ultimately show ?thesis
    unfolding positive_semidefinite_def by (simp only:) blast
qed

lemma error_range_polynomial:
  assumes "length params = 4" and "\<forall>i<4. params ! i \<noteq> 0"
    and "length cov = 4" and "\<forall>row\<in>set cov. length row = 4"
  shows "error_range x polynomial_fit params cov
       = Inr (map (\<lambda>xk. fsqrt (Fin (\<Sum>i<4. \<Sum>j<4.
                  xk ^ (3 - i) * xk ^ (3 - j) * cov ! i ! j))) x)"
proof -
  have ar: "arity polynomial_fit = length params"
    using assms(1) by (simp add: arity_polynomial_fit)
  have nz: "\<forall>i<length params. params ! i \<noteq> 0" using assms(1,2) by simp
  have "error_range x polynomial_fit params cov
      = Inr (map (\<lambda>xk. fsqrt (\<Sum>i<length params. \<Sum>j<length params.
                                   variance_term polynomial_fit params cov i j xk)) x)"
    using ar assms by (intro error_range_value) simp_all
  also have "\<dots> = Inr (map (\<lambda>xk. fsqrt (Fin (\<Sum>i<4. \<Sum>j<4.
                  xk ^ (3 - i) * xk ^ (3 - j) * cov ! i ! j))) x)"
    unfolding variance_finite[OF nz] using assms
    by (simp add: finite_difference_polynomial)
  finally show ?thesis .
qed

lemma exact_rank_one:
  "error_range [2000] polynomial_fit [1, 1, 1, 1]
     [[1, - 2000, 0, 0], [- 2000, 4000000, 0, 0], [0, 0, 0, 0], [0, 0, 0, 0]] = Inr [Fin 0]"
proof -
  have "error_range [2000] polynomial_fit [1, 1, 1, 1]
     [[1, - 2000, 0, 0], [- 2000, 4000000, 0, 0], [0, 0, 0, 0], [0, 0, 0, 0]]
     = Inr (map (\<lambda>xk. fsqrt (Fin (\<Sum>i<4. \<Sum>j<4. xk ^ (3 - i) * xk ^ (3 - j)
         * [[1, - 2000, 0, 0], [- 2000, 4000000, 0, 0], [0, 0, 0, 0], [0, 0, 0, 0]] ! i ! j)))
         [2000])"
    by (rule error_range_polynomial) (simp_all add: eval_nat_numeral less_Suc_eq)
  then show ?thesis by (simp add: eval_nat_numeral)
qed

lemma exact_last_entry:
  "error_range [2000] polynomial_fit [1, 1, 1, 1]
     [[0, 0, 0, 0], [0, 0, 0, 0], [0, 0, 0, 0], [0, 0, 0, 1]] = Inr [Fin 1]"
proof -
  have "error_range [2000] polynomial_fit [1, 1, 1, 1]
     [[0, 0, 0, 0], [0, 0, 0, 0], [0, 0, 0, 0], [0, 0, 0, 1]]
     = Inr (map (\<lambda>xk. fsqrt (Fin (\<Sum>i<4. \<Sum>j<4. xk ^ (3 - i) * xk ^ (3 - j)
         * [[0, 0, 0, 0], [0, 0, 0, 0], [0, 0, 0, 0], [0, 0, 0, 1]] ! i ! j)))
         [2000])"
    by (rule error_range_polynomial) (simp_all add: eval_nat_numeral less_Suc_eq)
  then show ?thesis by (simp add: eval_nat_numeral)
qed

text \<open>
  Claim C9 as stated fails in double precision. At \<open>x = 2000\<close> with all parameters \<open>1\<close>
  and the positive semidefinite matrix \<open>v v\<^sup>T\<close> for \<open>v = (1, -2000, 0, 0)\<close>, the variance
  is \<open>0\<close> in exact arithmetic; the accumulation of line 56 in doubles ends at \<open>-8192\<close>, and
  the square root is NaN.
\<close>

theorem error_range64_negative_variance:
  "positive_semidefinite
     [[1, - 2000, 0, 0], [- 2000, 4000000, 0, 0], [0, 0, 0, 0], [0, 0, 0, 0]]
   \<and> error_range64 [Fin 2000] polynomial_fit64 [Fin 1, Fin 1, Fin 1, Fin 1]
        [[1, - 2000, 0, 0], [- 2000, 4000000, 0, 0], [0, 0, 0, 0], [0, 0, 0, 0]]
      = Inr [NaN]
   \<and> error_range [2000] polynomial_fit [1, 1, 1, 1]
        [[1, - 2000, 0, 0], [- 2000, 4000000, 0, 0], [0, 0, 0, 0], [0, 0, 0, 0]]
      = Inr [Fin 0]"
proof (intro conjI)
  show "error_range64 [Fin 2000] polynomial_fit64 [Fin 1, Fin 1, Fin 1, Fin 1]
        [[1, - 2000, 0, 0], [- 2000, 4000000, 0, 0], [0, 0, 0, 0], [0, 0, 0, 0]]
      = Inr [NaN]"
    by (simp add: error_range64_def upt_rec cov_at_def dsqrt_def
        derivative64_2000_0 derivative64_2000_1 derivative64_2000_2 derivative64_2000_3
        double_eval)
qed (rule psd_rank_one, rule exact_rank_one)

text \<open>
  Claim C2 as stated fails in double precision. At \<open>x = 2000\<close> with all parameters \<open>1\<close>
  and the covariance matrix whose only entry is \<open>cov[3, 3] = 1\<close>, the analytic formula gives
  the error \<open>1\<close>; in doubles the two model values differ by two units in the last place,
  the derivative with respect to \<open>d\<close> is \<open>15625 / 16384\<close>, about \<open>0.954\<close>, and so is the
  error returned.
\<close>

theorem error_range64_lost_precision:
  "error_range64 [Fin 2000] polynomial_fit64 [Fin 1, Fin 1, Fin 1, Fin 1]
        [[0, 0, 0, 0], [0, 0, 0, 0], [0, 0, 0, 0], [0, 0, 0, 1]]
      = Inr [Fin (15625 / 16384)]
   \<and> error_range [2000] polynomial_fit [1, 1, 1, 1]
        [[0, 0, 0, 0], [0, 0, 0, 0], [0, 0, 0, 0], [0, 0, 0, 1]]
      = Inr [Fin 1]
   \<and> 1 / 10 ^ 4 < \<bar>15625 / 16384 - (1 :: real)\<bar>"
proof (intro conjI)
  show "error_range64 [Fin 2000] polynomial_fit64 [Fin 1, Fin 1, Fin 1, Fin 1]
        [[0, 0, 0, 0], [0, 0, 0, 0], [0, 0, 0, 0], [0, 0, 0, 1]]
      = Inr [Fin (15625 / 16384)]"
    by (simp add: error_range64_def upt_rec cov_at_def dsqrt_def sqrt_d3
        derivative64_2000_0 derivative64_2000_1 derivative64_2000_2 derivative64_2000_3
        double_eval)
  show "1 / 10 ^ 4 < \<bar>15625 / 16384 - (1 :: real)\<bar>"
    by simp
qed (rule exact_last_entry)

section \<open>Properties of tables\<close>

lemma map_of_boolean_index:
  "map_of (boolean_index df keep) name = map_option (take_rows keep) (map_of df name)"
  unfolding boolean_index_def by (induction df) auto

lemma get_column_boolean_index:
  "get_column (boolean_index df keep) name =
     (case get_column df name of Inl e \<Rightarrow> Inl e | Inr c \<Rightarrow> Inr (take_rows keep c))"
  by (simp add: get_column_def map_of_boolean_index split: option.splits)

lemma map_of_set_column: "map_of (set_column df name c) = (map_of df)(name \<mapsto> c)"
  by (induction df name c rule: set_column.induct) auto

lemma get_column_set_column:
  "get_column (set_column df name c) n = (if n = name then Inr c else get_column df n)"
  by (simp add: get_column_def map_of_set_column)

lemma drop_missing_Inr:
  assumes "drop_missing s r = Inr (s', d)"
  obtains c1960 c2020 where
    "get_column (heap s r) ''1960'' = Inr c1960"
    "get_column (heap s r) ''2020'' = Inr c2020"
    "d = Suc (fresh s)" "fresh s' = Suc (Suc (fresh s))"
    "heap s' = (heap s)
       (fresh s := boolean_index (heap s r) (map2 (\<and>) (notna c1960) (notna c2020)),
        Suc (fresh s) := boolean_index (heap s r) (map2 (\<and>) (notna c1960) (notna c2020)))"
  using assms
  by (auto simp: drop_missing_def alloc_def Let_def split: sum.splits)

lemma make_change_Inr:
  assumes "make_change s d = Inr (s', c)"
  obtains selection where
    "select_columns (heap s d) [''Country Name'', ''1960''] = Inr selection"
    "c = Suc (fresh s)" "fresh s' = Suc (Suc (fresh s))"
    "heap s' = (heap s)(fresh s := selection, Suc (fresh s) := selection)"
  using assms
  by (auto simp: make_change_def alloc_def Let_def split: sum.splits)

lemma add_change_Inr:
  assumes "add_change s d c = Inr s'"
  obtains a b where
    "get_column (heap s d) ''1960'' = Inr (Floats a)"
    "get_column (heap s d) ''2020'' = Inr (Floats b)"
    "s' = s\<lparr>heap := (heap s)(c := set_column (heap s c) ''Change''
             (Floats (map2 fdiv (map (fmul (Fin (100 / 60))) (map2 fsub b a)) a)))\<rparr>"
proof -
  from assms obtain c2020 c1960 where
    g: "get_column (heap s d) ''2020'' = Inr c2020" "get_column (heap s d) ''1960'' = Inr c1960"
    by (auto simp: add_change_def split: sum.splits)
  from assms g obtain difference where sub: "series_sub c2020 c1960 = Inr difference"
    by (auto simp: add_change_def split: sum.splits)
  then obtain a b where ab: "c1960 = Floats a" "c2020 = Floats b"
    by (cases c2020; cases c1960) auto
  show ?thesis
    using assms g ab by (intro that[of a b]) (auto simp: add_change_def)
qed

lemma rows_where_notna_left:
  assumes "v \<in> set (rows_where (map2 (\<and>) (map (\<lambda>v. \<not> isnan v) a) (map (\<lambda>v. \<not> isnan v) b)) a)"
  shows "\<not> isnan v"
  using assms by (auto simp: rows_where_def in_set_zip)

lemma rows_where_notna_right:
  assumes "v \<in> set (rows_where (map2 (\<and>) (map (\<lambda>v. \<not> isnan v) a) (map (\<lambda>v. \<not> isnan v) b)) b)"
  shows "\<not> isnan v"
  using assms by (auto simp: rows_where_def in_set_zip)

lemma length_rows_where:
  "length keep \<le> length vs \<Longrightarrow> length (rows_where keep vs) = length (filter id keep)"
proof (induction keep arbitrary: vs)
  case Nil
  then show ?case by (simp add: rows_where_def)
next
  case (Cons k keep)
  then obtain v vs' where "vs = v # vs'" by (cases vs) auto
  with Cons show ?case by (simp add: rows_where_def)
qed

lemma build_features_Inr:
  assumes "build_features raw = Inr (s, d, c)"
  obtains a0 b0 where
    "get_column raw ''1960'' = Inr (Floats a0)"
    "get_column raw ''2020'' = Inr (Floats b0)"
    "get_column (heap s d) ''1960'' =
       Inr (Floats (rows_where (map2 (\<and>) (map (\<lambda>v. \<not> isnan v) a0) (map (\<lambda>v. \<not> isnan v) b0)) a0))"
    "get_column (heap s d) ''2020'' =
       Inr (Floats (rows_where (map2 (\<and>) (map (\<lambda>v. \<not> isnan v) a0) (map (\<lambda>v. \<not> isnan v) b0)) b0))"
    "get_column (heap s c) ''Change'' =
       Inr (Floats (map2 fdiv (map (fmul (Fin (100 / 60)))
          (map2 fsub (rows_where (map2 (\<and>) (map (\<lambda>v. \<not> isnan v) a0) (map (\<lambda>v. \<not> isnan v) b0)) b0)
                     (rows_where (map2 (\<and>) (map (\<lambda>v. \<not> isnan v) a0) (map (\<lambda>v. \<not> isnan v) b0)) a0)))
          (rows_where (map2 (\<and>) (map (\<lambda>v. \<not> isnan v) a0) (map (\<lambda>v. \<not> isnan v) b0)) a0)))"
proof -
  define s0 where "s0 = \<lparr>heap = (\<lambda>r. [])(0 := raw), fresh = Suc 0\<rparr>"
  from assms obtain s1 s2 where
    dm: "drop_missing s0 0 = Inr (s1, d)" and mc: "make_change s1 d = Inr (s2, c)"
    and ac: "add_change s2 d c = Inr s"
    by (auto simp: build_features_def feature_table_def alloc_def s0_def split: sum.splits)
  from dm obtain c1960 c2020 where
    g0: "get_column raw ''1960'' = Inr c1960" "get_column raw ''2020'' = Inr c2020"
    and d: "d = 2" and f1: "fresh s1 = 3"
    and h1: "heap s1 d = boolean_index raw (map2 (\<and>) (notna c1960) (notna c2020))"
    by (rule drop_missing_Inr) (auto simp: s0_def)
  from mc obtain selection where c: "c = 4" and h2: "heap s2 d = heap s1 d"
    by (rule make_change_Inr) (auto simp: f1 d)
  from ac obtain a b where
    g2: "get_column (heap s2 d) ''1960'' = Inr (Floats a)"
        "get_column (heap s2 d) ''2020'' = Inr (Floats b)"
    and s: "s = s2\<lparr>heap := (heap s2)(c := set_column (heap s2 c) ''Change''
             (Floats (map2 fdiv (map (fmul (Fin (100 / 60))) (map2 fsub b a)) a)))\<rparr>"
    by (rule add_change_Inr)
  from g2 h2 h1 g0 obtain a0 b0 where ab0: "c1960 = Floats a0" "c2020 = Floats b0"
    by (cases c1960; cases c2020) (auto simp: get_column_boolean_index)
  have a: "a = rows_where (map2 (\<and>) (map (\<lambda>v. \<not> isnan v) a0) (map (\<lambda>v. \<not> isnan v) b0)) a0"
    and b: "b = rows_where (map2 (\<and>) (map (\<lambda>v. \<not> isnan v) a0) (map (\<lambda>v. \<not> isnan v) b0)) b0"
    using g2 h2 h1 g0 ab0 by (auto simp: get_column_boolean_index rows_where_def)
  have hd: "heap s d = heap s2 d"
    using s c d by simp
  show ?thesis
  proof (rule that[of a0 b0])
    show "get_column raw ''1960'' = Inr (Floats a0)" using g0 ab0 by simp
    show "get_column raw ''2020'' = Inr (Floats b0)" using g0 ab0 by simp
    show "get_column (heap s d) ''1960'' = Inr
      (Floats (rows_where (map2 (\<and>) (map (\<lambda>v. \<not> isnan v) a0) (map (\<lambda>v. \<not> isnan v) b0)) a0))"
      using hd g2 a by simp
    show "get_column (heap s d) ''2020'' = Inr
      (Floats (rows_where (map2 (\<and>) (map (\<lambda>v. \<not> isnan v) a0) (map (\<lambda>v. \<not> isnan v) b0)) b0))"
      using hd g2 b by simp
    show "get_column (heap s c) ''Change'' =
       Inr (Floats (map2 fdiv (map (fmul (Fin (100 / 60)))
          (map2 fsub (rows_where (map2 (\<and>) (map (\<lambda>v. \<not> isnan v) a0) (map (\<lambda>v. \<not> isnan v) b0)) b0)
                     (rows_where (map2 (\<and>) (map (\<lambda>v. \<not> isnan v) a0) (map (\<lambda>v. \<not> isnan v) b0)) a0)))
          (rows_where (map2 (\<and>) (map (\<lambda>v. \<not> isnan v) a0) (map (\<lambda>v. \<not> isnan v) b0)) a0)))"
      unfolding s a[symmetric] b[symmetric] by (simp add: get_column_set_column)
  qed
qed

section \<open>Properties of the feature table\<close>

lemma length_rows_where_pair:
  "length (rows_where (map2 (\<and>) (map p a) (map q b)) a)
   = length (rows_where (map2 (\<and>) (map p a) (map q b)) b)"
  by (simp add: length_rows_where)

lemma zero_baseline_not_finite:
  assumes "\<not> isnan e"
  shows "\<not> is_finite (fdiv (fmul (Fin (100 / 60)) (fsub e (Fin 0))) (Fin 0))"
  using assms by (cases e) (auto simp: fsub_def)

lemma features_columns:
  assumes "data_Fer_column raw ''1960'' = Inr (Floats a)"
    and "data_Fer_column raw ''2020'' = Inr (Floats b)"
    and "change_column raw ''Change'' = Inr (Floats ch)"
  shows "(\<forall>v\<in>set a. \<not> isnan v) \<and> (\<forall>v\<in>set b. \<not> isnan v) \<and> length a = length b
       \<and> ch = map2 fdiv (map (fmul (Fin (100 / 60))) (map2 fsub b a)) a"
proof -
  from assms(1) obtain s d c where bf: "build_features raw = Inr (s, d, c)"
    by (auto simp: data_Fer_column_def split: sum.splits)
  from bf show ?thesis
  proof (rule build_features_Inr)
    fix a0 b0
    let ?keep = "map2 (\<and>) (map (\<lambda>v. \<not> isnan v) a0) (map (\<lambda>v. \<not> isnan v) b0)"
    assume "get_column (heap s d) ''1960'' = Inr (Floats (rows_where ?keep a0))"
      and "get_column (heap s d) ''2020'' = Inr (Floats (rows_where ?keep b0))"
      and "get_column (heap s c) ''Change'' =
       Inr (Floats (map2 fdiv (map (fmul (Fin (100 / 60)))
          (map2 fsub (rows_where ?keep b0) (rows_where ?keep a0))) (rows_where ?keep a0)))"
    with assms bf have a: "a = rows_where ?keep a0" and b: "b = rows_where ?keep b0"
      and ch: "ch = map2 fdiv (map (fmul (Fin (100 / 60))) (map2 fsub b a)) a"
      by (simp_all add: data_Fer_column_def change_column_def)
    from a b ch show ?thesis
      using rows_where_notna_left[of _ a0 b0] rows_where_notna_right[of _ a0 b0]
        length_rows_where_pair[of "\<lambda>v. \<not> isnan v" a0 "\<lambda>v. \<not> isnan v" b0]
      by blast
  qed
qed

text \<open>
  Claim C6. For every row that reaches the computation, the \<open>Change\<close> column holds
  \<open>(100/60) * (value_2020 - value_1960) / value_1960\<close> of the same row. For finite values
  and a 1960 value that is not zero this is the real number
  \<open>100 / 60 * (e - s) / s\<close>; for \<open>s = 2.0\<close> and \<open>e = 3.5\<close> it is \<open>1.25\<close>.
\<close>

theorem change_rate_formula:
  assumes "data_Fer_column raw ''1960'' = Inr (Floats a)"
    and "data_Fer_column raw ''2020'' = Inr (Floats b)"
    and "change_column raw ''Change'' = Inr (Floats ch)"
  shows "length ch = length a \<and> length b = length a
       \<and> (\<forall>k<length ch.
            ch ! k = fdiv (fmul (Fin (100 / 60)) (fsub (b ! k) (a ! k))) (a ! k)
            \<and> (\<forall>s e. a ! k = Fin s \<and> b ! k = Fin e \<and> s \<noteq> 0 \<longrightarrow>
                 ch ! k = Fin (100 / 60 * (e - s) / s)))"
proof -
  from features_columns[OF assms]
  have len: "length a = length b"
    and ch: "ch = map2 fdiv (map (fmul (Fin (100 / 60))) (map2 fsub b a)) a"
    by blast+
  have lch: "length ch = length a" using ch len by simp
  have 1: "ch ! k = fdiv (fmul (Fin (100 / 60)) (fsub (b ! k) (a ! k))) (a ! k)"
    if "k < length ch" for k
    using that lch len by (simp add: ch)
  have 2: "ch ! k = Fin (100 / 60 * (e - s) / s)"
    if "k < length ch" "a ! k = Fin s" "b ! k = Fin e" "s \<noteq> 0" for k s e
    using 1[OF that(1)] that(2-4) by (simp add: fsub_def)
  from lch len 1 2 show ?thesis by auto
qed

theorem change_rate_formula_witness:
  "data_Fer_column [(''Country Name'', Objects [Some ''A'', Some ''B'']),
       (''1960'', Floats [Fin 2, Fin 4]), (''2020'', Floats [Fin 3.5, NaN])] ''1960''
     = Inr (Floats [Fin 2])
   \<and> data_Fer_column [(''Country Name'', Objects [Some ''A'', Some ''B'']),
       (''1960'', Floats [Fin 2, Fin 4]), (''2020'', Floats [Fin 3.5, NaN])] ''2020''
     = Inr (Floats [Fin 3.5])
   \<and> change_column [(''Country Name'', Objects [Some ''A'', Some ''B'']),
       (''1960'', Floats [Fin 2, Fin 4]), (''2020'', Floats [Fin 3.5, NaN])] ''Change''
     = Inr (Floats [Fin 1.25])
   \<and> [Fin 1.25] ! 0 = Fin (100 / 60 * (3.5 - 2) / 2)"
proof -
  let ?T = "[(''Country Name'', Objects [Some ''A'', Some ''B'']),
       (''1960'', Floats [Fin 2, Fin 4]), (''2020'', Floats [Fin 3.5, NaN])]"
  have h1: "data_Fer_column ?T ''1960'' = Inr (Floats [Fin 2])"
    by (simp add: data_Fer_column_def build_features_def feature_table_def alloc_def
        drop_missing_def make_change_def add_change_def get_column_def boolean_index_def
        rows_where_def fsub_def)
  have h2: "data_Fer_column ?T ''2020'' = Inr (Floats [Fin 3.5])"
    by (simp add: data_Fer_column_def build_features_def feature_table_def alloc_def
        drop_missing_def make_change_def add_change_def get_column_def boolean_index_def
        rows_where_def fsub_def)
  have h3: "change_column ?T ''Change'' = Inr (Floats [Fin 1.25])"
    by (simp add: change_column_def build_features_def feature_table_def alloc_def
        drop_missing_def make_change_def add_change_def get_column_def boolean_index_def
        rows_where_def fsub_def)
  from change_rate_formula [OF h1 h2 h3] have "[Fin 1.25] ! 0 = Fin (100 / 60 * (3.5 - 2) / 2)"
    by simp
  with h1 h2 h3 show ?thesis by blast
qed

text \<open>
  Claim C5 as stated fails: a country with 1960 value \<open>0\<close> and 2020 value \<open>3\<close> passes the
  filter, and its change rate is \<open>(100/60) * 3 / 0\<close>, an infinity.
\<close>

theorem zero_baseline_reaches_division:
  "data_Fer_column [(''Country Name'', Objects [Some ''A'']),
       (''1960'', Floats [Fin 0]), (''2020'', Floats [Fin 3])] ''1960''
     = Inr (Floats [Fin 0])
   \<and> change_column [(''Country Name'', Objects [Some ''A'']),
       (''1960'', Floats [Fin 0]), (''2020'', Floats [Fin 3])] ''Change''
     = Inr (Floats [PInf])"
  by (simp add: data_Fer_column_def change_column_def build_features_def feature_table_def
      alloc_def drop_missing_def make_change_def add_change_def get_column_def
      boolean_index_def rows_where_def fsub_def)

lemma zip_rows_where:
  "zip (rows_where (map2 (\<and>) (map p a) (map q b)) a)
       (rows_where (map2 (\<and>) (map p a) (map q b)) b)
   = filter (\<lambda>(u, v). p u \<and> q v) (zip a b)"
proof (induction a arbitrary: b)
  case Nil
  then show ?case by (simp add: rows_where_def)
next
  case (Cons x a)
  show ?case
  proof (cases b)
    case Nil
    then show ?thesis by (simp add: rows_where_def)
  next
    case (Cons y b')
    with Cons.IH[of b'] show ?thesis by (simp add: rows_where_def)
  qed
qed

lemma build_features_returns:
  assumes "get_column raw ''Country Name'' = Inr names"
    and "get_column raw ''1960'' = Inr (Floats a0)"
    and "get_column raw ''2020'' = Inr (Floats b0)"
  shows "\<exists>s d c. build_features raw = Inr (s, d, c)"
  using assms
  by (simp add: build_features_def feature_table_def alloc_def drop_missing_def
      make_change_def add_change_def get_column_boolean_index Let_def)

text \<open>
  Claim C5, as amended. The rows that reach the change-rate computation are exactly the
  rows of the table read whose 1960 value and 2020 value are both present, in their order:
  the filter of line 102 excludes a row when one of the two is missing, and for no other
  reason. A row whose 1960 value is zero is therefore kept, and the division then divides
  by zero: its change rate is an infinity or NaN.
\<close>

theorem baseline_not_missing:
  assumes "get_column raw ''Country Name'' = Inr names"
    and "get_column raw ''1960'' = Inr (Floats a0)"
    and "get_column raw ''2020'' = Inr (Floats b0)"
  shows "\<exists>a b ch.
           data_Fer_column raw ''1960'' = Inr (Floats a)
         \<and> data_Fer_column raw ''2020'' = Inr (Floats b)
         \<and> change_column raw ''Change'' = Inr (Floats ch)
         \<and> zip a b = filter (\<lambda>(u, v). \<not> isnan u \<and> \<not> isnan v) (zip a0 b0)
         \<and> length a = length b \<and> length ch = length a
         \<and> (\<forall>k<length ch. a ! k = Fin 0 \<longrightarrow> \<not> is_finite (ch ! k))"
proof -
  define keep where "keep = map2 (\<and>) (map (\<lambda>v. \<not> isnan v) a0) (map (\<lambda>v. \<not> isnan v) b0)"
  define a where "a = rows_where keep a0"
  define b where "b = rows_where keep b0"
  define ch where "ch = map2 fdiv (map (fmul (Fin (100 / 60))) (map2 fsub b a)) a"
  from build_features_returns[OF assms] obtain s d c where
    bf: "build_features raw = Inr (s, d, c)" by blast
  have col: "data_Fer_column raw ''1960'' = Inr (Floats a)
      \<and> data_Fer_column raw ''2020'' = Inr (Floats b)
      \<and> change_column raw ''Change'' = Inr (Floats ch)"
  proof (rule build_features_Inr[OF bf])
    fix a1 b1
    assume r: "get_column raw ''1960'' = Inr (Floats a1)"
      "get_column raw ''2020'' = Inr (Floats b1)"
    assume c: "get_column (heap s d) ''1960'' = Inr (Floats (rows_where
          (map2 (\<and>) (map (\<lambda>v. \<not> isnan v) a1) (map (\<lambda>v. \<not> isnan v) b1)) a1))"
      "get_column (heap s d) ''2020'' = Inr (Floats (rows_where
          (map2 (\<and>) (map (\<lambda>v. \<not> isnan v) a1) (map (\<lambda>v. \<not> isnan v) b1)) b1))"
      "get_column (heap s c) ''Change'' =
       Inr (Floats (map2 fdiv (map (fmul (Fin (100 / 60)))
          (map2 fsub (rows_where (map2 (\<and>) (map (\<lambda>v. \<not> isnan v) a1) (map (\<lambda>v. \<not> isnan v) b1)) b1)
                     (rows_where (map2 (\<and>) (map (\<lambda>v. \<not> isnan v) a1) (map (\<lambda>v. \<not> isnan v) b1)) a1)))
          (rows_where (map2 (\<and>) (map (\<lambda>v. \<not> isnan v) a1) (map (\<lambda>v. \<not> isnan v) b1)) a1)))"
    from r assms have eq: "a1 = a0" "b1 = b0" by simp_all
    show ?thesis
      using c unfolding eq data_Fer_column_def change_column_def bf a_def b_def ch_def keep_def
      by simp
  qed
  have z: "zip a b = filter (\<lambda>(u, v). \<not> isnan u \<and> \<not> isnan v) (zip a0 b0)"
    unfolding a_def b_def keep_def by (rule zip_rows_where)
  from col have c1: "data_Fer_column raw ''1960'' = Inr (Floats a)"
    and c2: "data_Fer_column raw ''2020'' = Inr (Floats b)"
    and c3: "change_column raw ''Change'' = Inr (Floats ch)"
    by simp_all
  note fc = features_columns[OF c1 c2 c3]
  have nb: "\<forall>v\<in>set b. \<not> isnan v" using fc by (rule conjunct1[OF conjunct2])
  have len: "length a = length b" using fc by (rule conjunct1[OF conjunct2[OF conjunct2]])
  have lch: "length ch = length a" using len by (simp add: ch_def)
  have nf: "\<forall>k<length ch. a ! k = Fin 0 \<longrightarrow> \<not> is_finite (ch ! k)"
  proof (intro allI impI)
    fix k assume k: "k < length ch" and z0: "a ! k = Fin 0"
    have kb: "k < length b" and ka: "k < length a" using k lch len by simp_all
    then have "\<not> isnan (b ! k)" using nb by simp
    from zero_baseline_not_finite[OF this]
    show "\<not> is_finite (ch ! k)"
      using ka kb z0 by (simp add: ch_def)
  qed
  show ?thesis
    using c1 c2 c3 z len lch nf by blast
qed

theorem baseline_not_missing_witness:
  "get_column [(''Country Name'', Objects [Some ''A'', Some ''B'', Some ''C'']),
       (''1960'', Floats [NaN, Fin 0, Fin 2]), (''2020'', Floats [Fin 1, Fin 3, Fin 3.5])]
      ''Country Name'' = Inr (Objects [Some ''A'', Some ''B'', Some ''C''])
   \<and> data_Fer_column [(''Country Name'', Objects [Some ''A'', Some ''B'', Some ''C'']),
       (''1960'', Floats [NaN, Fin 0, Fin 2]), (''2020'', Floats [Fin 1, Fin 3, Fin 3.5])]
      ''1960'' = Inr (Floats [Fin 0, Fin 2])
   \<and> data_Fer_column [(''Country Name'', Objects [Some ''A'', Some ''B'', Some ''C'']),
       (''1960'', Floats [NaN, Fin 0, Fin 2]), (''2020'', Floats [Fin 1, Fin 3, Fin 3.5])]
      ''2020'' = Inr (Floats [Fin 3, Fin 3.5])
   \<and> change_column [(''Country Name'', Objects [Some ''A'', Some ''B'', Some ''C'']),
       (''1960'', Floats [NaN, Fin 0, Fin 2]), (''2020'', Floats [Fin 1, Fin 3, Fin 3.5])]
      ''Change'' = Inr (Floats [PInf, Fin 1.25])"
proof -
  let ?T = "[(''Country Name'', Objects [Some ''A'', Some ''B'', Some ''C'']),
       (''1960'', Floats [NaN, Fin 0, Fin 2]), (''2020'', Floats [Fin 1, Fin 3, Fin 3.5])]"
  have h1: "get_column ?T ''Country Name'' = Inr (Objects [Some ''A'', Some ''B'', Some ''C''])"
    by (simp add: get_column_def)
  have h2: "get_column ?T ''1960'' = Inr (Floats [NaN, Fin 0, Fin 2])"
    by (simp add: get_column_def)
  have h3: "get_column ?T ''2020'' = Inr (Floats [Fin 1, Fin 3, Fin 3.5])"
    by (simp add: get_column_def)
  from baseline_not_missing [OF h1 h2 h3] obtain a b ch where
    col: "data_Fer_column ?T ''1960'' = Inr (Floats a)"
      "data_Fer_column ?T ''2020'' = Inr (Floats b)"
      "change_column ?T ''Change'' = Inr (Floats ch)"
    and z: "zip a b = filter (\<lambda>(u, v). \<not> isnan u \<and> \<not> isnan v)
              (zip [NaN, Fin 0, Fin 2] [Fin 1, Fin 3, Fin 3.5])"
    and len: "length a = length b"
    by blast
  from z have "zip a b = [(Fin 0, Fin 3), (Fin 2, Fin 3.5)]" by simp
  with len have ab: "a = [Fin 0, Fin 2]" "b = [Fin 3, Fin 3.5]"
    by (auto simp: zip_eq_conv)
  have ch: "change_column ?T ''Change'' = Inr (Floats [PInf, Fin 1.25])"
    by (simp add: change_column_def build_features_def feature_table_def alloc_def
        drop_missing_def make_change_def add_change_def get_column_def boolean_index_def
        rows_where_def fsub_def)
  from h1 col(1,2) ab ch show ?thesis by simp
qed

lemma select_two_columns:
  assumes "select_columns df [n1, n2] = Inr selection" and "n1 \<noteq> n2"
  shows "get_column selection n1 = get_column df n1 \<and> get_column selection n2 = get_column df n2"
  using assms by (auto simp: get_column_def split: sum.splits option.splits)

text \<open>
  Claim C10. The feature table is a new object, a copy of the two selected columns. Adding
  its \<open>Change\<close> column leaves the table \<open>data_Fer\<close> refers to as it was, and the columns
  \<open>Country Name\<close> and \<open>1960\<close> of the feature table are those of \<open>data_Fer\<close>.
\<close>

theorem feature_table_preserves_source:
  assumes "feature_table s data_Fer = Inr (s', change)" and "data_Fer < fresh s"
  shows "change \<noteq> data_Fer \<and> heap s' data_Fer = heap s data_Fer
       \<and> get_column (heap s' change) ''Country Name'' = get_column (heap s data_Fer) ''Country Name''
       \<and> get_column (heap s' change) ''1960'' = get_column (heap s data_Fer) ''1960''"
proof -
  from assms(1) obtain s1 where
    mc: "make_change s data_Fer = Inr (s1, change)" and ac: "add_change s1 data_Fer change = Inr s'"
    by (auto simp: feature_table_def split: sum.splits)
  from mc obtain selection where
    sel: "select_columns (heap s data_Fer) [''Country Name'', ''1960''] = Inr selection"
    and c: "change = Suc (fresh s)"
    and h1: "heap s1 = (heap s)(fresh s := selection, Suc (fresh s) := selection)"
    by (rule make_change_Inr)
  from ac obtain a b where
    s': "s' = s1\<lparr>heap := (heap s1)(change := set_column (heap s1 change) ''Change''
             (Floats (map2 fdiv (map (fmul (Fin (100 / 60))) (map2 fsub b a)) a)))\<rparr>"
    by (rule add_change_Inr)
  have ne: "change \<noteq> data_Fer" using c assms(2) by simp
  have src: "heap s' data_Fer = heap s data_Fer"
    using ne c assms(2) by (simp add: s' h1)
  have chg: "heap s' change = set_column selection ''Change''
      (Floats (map2 fdiv (map (fmul (Fin (100 / 60))) (map2 fsub b a)) a))"
    using c by (simp add: s' h1)
  from select_two_columns[OF sel]
  have "get_column selection ''Country Name'' = get_column (heap s data_Fer) ''Country Name''"
    and "get_column selection ''1960'' = get_column (heap s data_Fer) ''1960''"
    by simp_all
  then show ?thesis
    using ne src by (simp add: chg get_column_set_column)
qed

theorem feature_table_preserves_source_witness:
  "feature_table
     \<lparr>heap = (\<lambda>r. [])(0 := [(''Country Name'', Objects [Some ''A'']),
                             (''1960'', Floats [Fin 2]), (''2020'', Floats [Fin 3.5])]),
      fresh = 1\<rparr> 0
   = Inr (\<lparr>heap = (\<lambda>r. [])
            (0 := [(''Country Name'', Objects [Some ''A'']),
                   (''1960'', Floats [Fin 2]), (''2020'', Floats [Fin 3.5])],
             1 := [(''Country Name'', Objects [Some ''A'']), (''1960'', Floats [Fin 2])],
             2 := [(''Country Name'', Objects [Some ''A'']), (''1960'', Floats [Fin 2]),
                   (''Change'', Floats [Fin (5 / 4)])]),
           fresh = 3\<rparr>, 2)
   \<and> (2 :: nat) \<noteq> 0"
proof -
  let ?T = "[(''Country Name'', Objects [Some ''A'']),
             (''1960'', Floats [Fin 2]), (''2020'', Floats [Fin 3.5])]"
  let ?s = "\<lparr>heap = (\<lambda>r. [])(0 := ?T), fresh = 1\<rparr>"
  let ?s' = "\<lparr>heap = (\<lambda>r. [])
            (0 := ?T,
             1 := [(''Country Name'', Objects [Some ''A'']), (''1960'', Floats [Fin 2])],
             2 := [(''Country Name'', Objects [Some ''A'']), (''1960'', Floats [Fin 2]),
                   (''Change'', Floats [Fin (5 / 4)])]),
           fresh = 3\<rparr>"
  have run: "feature_table ?s 0 = Inr (?s', 2)"
    by (simp add: feature_table_def make_change_def add_change_def alloc_def get_column_def
        fsub_def eval_nat_numeral)
  have alloc: "0 < fresh ?s" by simp
  from feature_table_preserves_source [OF run alloc] show ?thesis
    using run by simp
qed

section \<open>Properties of the silhouette sweep\<close>

lemma silhouette_loop_result:
  assumes "silhouette_loop lib scaled ks printed g = Inr (out, g')"
  shows "\<exists>new. out = printed @ new \<and> map fst new = ks
           \<and> (\<forall>(k, score)\<in>set new. \<exists>g0 labels g1.
                 kmeans_fit lib k 20 scaled g0 = Inr (labels, g1)
                 \<and> silhouette_score lib scaled labels = Inr score)"
  using assms
proof (induction ks arbitrary: printed g)
  case Nil
  then show ?case by simp
next
  case (Cons ic rest)
  from Cons.prems obtain score g1 where
    one: "one_silhouette lib scaled ic g = Inr (score, g1)"
    and rec: "silhouette_loop lib scaled rest (printed @ [(ic, score)]) g1 = Inr (out, g')"
    by (auto split: sum.splits)
  from one obtain labels where
    fit: "kmeans_fit lib ic 20 scaled g = Inr (labels, g1)"
    and sc: "silhouette_score lib scaled labels = Inr score"
    by (auto simp: one_silhouette_def split: sum.splits)
  from Cons.IH[OF rec] obtain new where
    new: "out = (printed @ [(ic, score)]) @ new" "map fst new = rest"
    "\<forall>(k, score)\<in>set new. \<exists>g0 labels g1.
        kmeans_fit lib k 20 scaled g0 = Inr (labels, g1)
        \<and> silhouette_score lib scaled labels = Inr score"
    by blast
  show ?case
  proof (intro exI[of _ "(ic, score) # new"] conjI)
    show "out = printed @ (ic, score) # new" using new(1) by simp
    show "map fst ((ic, score) # new) = ic # rest" using new(2) by simp
    show "\<forall>(k, score)\<in>set ((ic, score) # new). \<exists>g0 labels g1.
        kmeans_fit lib k 20 scaled g0 = Inr (labels, g1)
        \<and> silhouette_score lib scaled labels = Inr score"
      using new(3) fit sc by auto
  qed
qed

text \<open>
  Claim C7. The sweep prints one pair of a cluster count and a score for each of the nine
  counts 2, 3, ..., 10, in this order, and for no other. Each score is the silhouette
  score, over the scaled input, of the labels of a k-means fit of that input with that
  count and 20 restarts. No count is chosen from the scores: the clustering that follows
  is fitted with the literal count 3.
\<close>

theorem silhouette_sweep_pairs:
  assumes "sweep_and_cluster lib scaled g = Inr (printed, labels, g')"
  shows "map fst printed = [2, 3, 4, 5, 6, 7, 8, 9, 10]
       \<and> (\<forall>(k, score)\<in>set printed. \<exists>g0 lab g1.
             kmeans_fit lib k 20 scaled g0 = Inr (lab, g1)
             \<and> silhouette_score lib scaled lab = Inr score)
       \<and> (\<exists>g1. kmeans_fit lib 3 20 scaled g1 = Inr (labels, g'))"
proof -
  from assms obtain g1 where
    sw: "silhouette_sweep lib scaled g = Inr (printed, g1)"
    and fit: "kmeans_fit lib 3 20 scaled g1 = Inr (labels, g')"
    by (auto simp: sweep_and_cluster_def split: sum.splits)
  have ks: "[2..<11] = [2, 3, 4, 5, 6, 7, 8, 9, 10 :: nat]"
    by (simp add: upt_rec)
  from silhouette_loop_result[OF sw[unfolded silhouette_sweep_def]]
  have "map fst printed = [2..<11]"
    and "\<forall>(k, score)\<in>set printed. \<exists>g0 lab g1.
             kmeans_fit lib k 20 scaled g0 = Inr (lab, g1)
             \<and> silhouette_score lib scaled lab = Inr score"
    by auto
  with fit ks show ?thesis by auto
qed

theorem silhouette_sweep_pairs_witness:
  "sweep_and_cluster
     \<lparr>kmeans_fit = (\<lambda>k n xy g. Inr (map (\<lambda>i. i mod k) [0..<length xy], Suc g)),
      silhouette_score = (\<lambda>xy labels. Inr (1 / 2))\<rparr>
     [(0, 0), (1, 1), (5, 5), (6, 6)] (0 :: nat)
   = Inr ([(2, 1 / 2), (3, 1 / 2), (4, 1 / 2), (5, 1 / 2), (6, 1 / 2), (7, 1 / 2),
           (8, 1 / 2), (9, 1 / 2), (10, 1 / 2)], [0, 1, 2, 0], 10)
   \<and> map fst [(2 :: nat, 1 / 2 :: real), (3, 1 / 2), (4, 1 / 2), (5, 1 / 2), (6, 1 / 2),
        (7, 1 / 2), (8, 1 / 2), (9, 1 / 2), (10, 1 / 2)] = [2, 3, 4, 5, 6, 7, 8, 9, 10]"
proof -
  let ?lib = "\<lparr>kmeans_fit = (\<lambda>k n xy g. Inr (map (\<lambda>i. i mod k) [0..<length xy], Suc g)),
      silhouette_score = (\<lambda>xy labels. Inr (1 / 2))\<rparr> :: nat sklearn"
  have run: "sweep_and_cluster ?lib [(0, 0), (1, 1), (5, 5), (6, 6)] 0
     = Inr ([(2, 1 / 2), (3, 1 / 2), (4, 1 / 2), (5, 1 / 2), (6, 1 / 2), (7, 1 / 2),
           (8, 1 / 2), (9, 1 / 2), (10, 1 / 2)], [0, 1, 2, 0], 10)"
    by (simp add: sweep_and_cluster_def silhouette_sweep_def one_silhouette_def upt_rec)
  from silhouette_sweep_pairs [OF run] show ?thesis
    using run by simp
qed

section \<open>Properties of the extrapolation\<close>

lemma foldl_max_of_int:
  "foldl (\<lambda>m v. if m < v then v else m) (real_of_int y) (map real_of_int ys)
   = real_of_int (Max (set (y # ys)))"
proof (induction ys arbitrary: y)
  case Nil
  then show ?case by simp
next
  case (Cons a ys)
  have step: "(if real_of_int y < real_of_int a then real_of_int a else real_of_int y)
      = real_of_int (max y a)"
    by (simp add: max_def)
  have "Max (set (max y a # ys)) = Max (set (y # a # ys))"
    by (cases "ys = []") (simp_all add: max.assoc)
  with Cons.IH[of "max y a"] show ?case
    by (simp only: list.map foldl_Cons step)
qed

lemma py_max_years:
  "years \<noteq> [] \<Longrightarrow> py_max (map real_of_int years) = Inr (real_of_int (Max (set years)))"
  by (cases years) (simp_all add: py_max_def foldl_max_of_int del: set_simps)

lemma py_max_Inr: "py_max xs = Inr m \<Longrightarrow> xs \<noteq> []"
  by (auto simp: py_max_def)

lemma arange_years:
  "arange (real_of_int m + 1) 2041 = map real_of_int [m + 1..2040]"
proof (rule nth_equalityI)
  have c: "\<lceil>2041 - (real_of_int m + 1)\<rceil> = 2040 - m"
  proof -
    have "2041 - (real_of_int m + 1) = real_of_int (2040 - m)" by simp
    then show ?thesis by (simp only: ceiling_of_int)
  qed
  show len: "length (arange (real_of_int m + 1) 2041) = length (map real_of_int [m + 1..2040])"
    by (simp add: arange_def c)
  fix i assume "i < length (arange (real_of_int m + 1) 2041)"
  then have i: "int i < 2040 - m" and i': "i < nat (2040 - m)"
    by (simp_all add: arange_def c)
  then have "[m + 1..2040] ! i = m + 1 + int i"
    by (intro nth_upto) simp
  moreover have "i < length [m + 1..2040]" using i by simp
  ultimately show "arange (real_of_int m + 1) 2041 ! i = map real_of_int [m + 1..2040] ! i"
    using i' by (simp add: arange_def c)
qed

lemma call_polynomial_fit_Inr:
  "call_model polynomial_fit x p = Inr r \<Longrightarrow> r = map (\<lambda>xk. body polynomial_fit xk p) x"
  by (auto simp: call_model_def split: if_splits)

text \<open>
  Claim C8. The curve is fitted once. The future years are the integers from the largest
  observed year plus one through 2040, the predictions for them and the fitted curve over
  the observed years evaluate the cubic model with the one parameter vector that this fit
  returned, and so do both error bands.
\<close>

theorem extrapolation_same_parameters:
  assumes "fit_and_extrapolate curve_fit years y_val = Inr t"
  shows "curve_fit polynomial_fit (map real_of_int years) y_val = Inr (popt t, pcov t)
       \<and> years \<noteq> []
       \<and> fut_x t = map real_of_int [Max (set years) + 1..2040]
       \<and> fut_y t = map (\<lambda>x. body polynomial_fit x (popt t)) (fut_x t)
       \<and> fitted t = map (\<lambda>x. body polynomial_fit x (popt t)) (map real_of_int years)
       \<and> error_range (map real_of_int years) polynomial_fit (popt t) (pcov t) = Inr (y_err t)
       \<and> error_range (fut_x t) polynomial_fit (popt t) (pcov t) = Inr (y_fut_err t)"
proof -
  let ?x = "map real_of_int years"
  from assms obtain p c err m fy ferr curve where
    cf: "curve_fit polynomial_fit ?x y_val = Inr (p, c)"
    and err: "error_range ?x polynomial_fit p c = Inr err"
    and m: "py_max ?x = Inr m"
    and fy: "call_model polynomial_fit (arange (m + 1) 2041) p = Inr fy"
    and ferr: "error_range (arange (m + 1) 2041) polynomial_fit p c = Inr ferr"
    and curve: "call_model polynomial_fit ?x p = Inr curve"
    and t: "t = \<lparr>popt = p, pcov = c, y_err = err, fut_x = arange (m + 1) 2041,
                 fut_y = fy, y_fut_err = ferr, fitted = curve\<rparr>"
    by (auto simp: fit_and_extrapolate_def Let_def split: sum.splits)
  have ne: "years \<noteq> []" using py_max_Inr[OF m] by simp
  have "m = real_of_int (Max (set years))" using m py_max_years[OF ne] by simp
  then have fx: "arange (m + 1) 2041 = map real_of_int [Max (set years) + 1..2040]"
    by (simp only: arange_years)
  show ?thesis
    using cf err ferr ne fx call_polynomial_fit_Inr[OF fy] call_polynomial_fit_Inr[OF curve]
    by (simp add: t)
qed

lemma error_range_returns:
  assumes "arity f = length params" and "length cov = length params"
    and "\<forall>row\<in>set cov. length row = length params"
  shows "\<exists>r. error_range x f params cov = Inr r"
  using error_range_value[OF assms, of x] by simp

theorem extrapolation_same_parameters_witness:
  "\<exists>t. fit_and_extrapolate
          (\<lambda>f x y. Inr ([1, 1, 1, 1], [[1, 0, 0, 0], [0, 1, 0, 0], [0, 0, 1, 0], [0, 0, 0, 1]]))
          [2036, 2038, 2037] [3, 2, 1] = Inr t
        \<and> popt t = [1, 1, 1, 1]
        \<and> fut_x t = [2039, 2040]
        \<and> fut_y t = map (\<lambda>x. body polynomial_fit x [1, 1, 1, 1]) [2039, 2040]
        \<and> fitted t = map (\<lambda>x. body polynomial_fit x [1, 1, 1, 1]) [2036, 2038, 2037]"
proof -
  let ?P = "[1, 1, 1, 1 :: real]"
  let ?C = "[[1, 0, 0, 0], [0, 1, 0, 0], [0, 0, 1, 0], [0, 0, 0, 1 :: real]]"
  let ?cf = "\<lambda>(f :: model) (x :: real list) (y :: real list).
      Inr (?P, ?C) :: py_error + (real list \<times> real list list)"
  have ret: "\<exists>r. error_range x polynomial_fit ?P ?C = Inr r" for x
    by (rule error_range_returns) (simp_all add: arity_polynomial_fit)
  from ret obtain err where e1: "error_range [2036, 2038, 2037] polynomial_fit ?P ?C = Inr err"
    by blast
  from ret obtain ferr where e2: "error_range [2039, 2040] polynomial_fit ?P ?C = Inr ferr"
    by blast
  have pm: "py_max [2036, 2038, 2037] = Inr 2038"
    by (simp add: py_max_def)
  have fx: "arange 2039 2041 = [2039, 2040]"
    by (simp add: arange_def upt_rec)
  have fy: "call_model polynomial_fit x ?P = Inr (map (\<lambda>xk. body polynomial_fit xk ?P) x)" for x
    by (simp add: call_model_def arity_polynomial_fit)
  have run: "fit_and_extrapolate ?cf [2036, 2038, 2037] [3, 2, 1]
      = Inr \<lparr>popt = ?P, pcov = ?C, y_err = err, fut_x = [2039, 2040],
             fut_y = map (\<lambda>xk. body polynomial_fit xk ?P) [2039, 2040], y_fut_err = ferr,
             fitted = map (\<lambda>xk. body polynomial_fit xk ?P) [2036, 2038, 2037]\<rparr>"
    by (simp add: fit_and_extrapolate_def Let_def e1 e2 pm fx fy)
  from extrapolation_same_parameters [OF run] show ?thesis
    using run by simp
qed

section \<open>Properties of the robust scaler\<close>







end
